theory Spec2Isabelle
  imports Complex_Main
begin

section \<open>Conventions of the embedding\<close>

text \<open>
  The repository is a Python package of hydraulic and pump calculations
  (\<^verbatim>\<open>utils/hydraulic_calcs.py\<close>, \<^verbatim>\<open>utils/pump_calcs.py\<close>, \<^verbatim>\<open>utils/standards.py\<close>).
  Python floats are embedded as exact reals: every theorem below is a statement about the
  formulas the code evaluates, in exact arithmetic; rounding, infinities and NaN are outside
  the model. Exceptions are values of \<open>py_error\<close>, returned in the left summand. A division
  of Python scalars whose divisor the caller can make zero raises \<^verbatim>\<open>ZeroDivisionError\<close>,
  and is written out as such. Warnings (\<^verbatim>\<open>warnings.warn\<close>) do not interrupt the call; a
  function that can warn returns the list of advisories it emitted next to its result.
\<close>

datatype py_error = ValueError | RuntimeError | ZeroDivisionError

datatype advisory = TemperatureOutsideRange real

definition GRAVITY :: real where
  "GRAVITY = 981 / 100"

section \<open>Hydraulic calculator: velocity and flow\<close>

text \<open>
  \<^verbatim>\<open>area = np.pi * (diameter ** 2) / 4; return flow_rate / area\<close>
\<close>

definition velocity_from_flow :: "real \<Rightarrow> real \<Rightarrow> py_error + real" where
  "velocity_from_flow flow_rate diameter =
     (let area = pi * diameter ^ 2 / 4
      in if area = 0 then Inl ZeroDivisionError else Inr (flow_rate / area))"

text \<open>
  \<^verbatim>\<open>area = np.pi * (diameter ** 2) / 4; return velocity * area\<close>
\<close>

definition flow_from_velocity :: "real \<Rightarrow> real \<Rightarrow> real" where
  "flow_from_velocity velocity diameter =
     (let area = pi * diameter ^ 2 / 4 in velocity * area)"

section \<open>Pump calculator: affinity laws\<close>

text \<open>
  The three affinity laws are static methods: they read no field of the calculator object
  and write none, so the model gives them no state argument.
  \<^verbatim>\<open>return flow1 * (speed2 / speed1)\<close>,
  \<^verbatim>\<open>return head1 * (speed2 / speed1)**2\<close>,
  \<^verbatim>\<open>return power1 * (speed2 / speed1)**3\<close>.
\<close>

definition affinity_laws_flow :: "real \<Rightarrow> real \<Rightarrow> real \<Rightarrow> py_error + real" where
  "affinity_laws_flow flow1 speed1 speed2 =
     (if speed1 = 0 then Inl ZeroDivisionError else Inr (flow1 * (speed2 / speed1)))"

definition affinity_laws_head :: "real \<Rightarrow> real \<Rightarrow> real \<Rightarrow> py_error + real" where
  "affinity_laws_head head1 speed1 speed2 =
     (if speed1 = 0 then Inl ZeroDivisionError else Inr (head1 * (speed2 / speed1) ^ 2))"

definition affinity_laws_power :: "real \<Rightarrow> real \<Rightarrow> real \<Rightarrow> py_error + real" where
  "affinity_laws_power power1 speed1 speed2 =
     (if speed1 = 0 then Inl ZeroDivisionError else Inr (power1 * (speed2 / speed1) ^ 3))"

section \<open>Hydraulic calculator: fluid property tables\<close>

text \<open>
  The two tables of \<^verbatim>\<open>get_kinematic_viscosity\<close> and \<^verbatim>\<open>get_water_density\<close>, as
  association lists from temperature (degrees Celsius) to the tabulated value, in the order
  in which the dictionaries are written.
\<close>

definition viscosity_table :: "(real \<times> real) list" where
  "viscosity_table =
     [(0, 1787 / 10 ^ 9), (5, 1519 / 10 ^ 9), (10, 1307 / 10 ^ 9), (15, 1139 / 10 ^ 9),
      (20, 1004 / 10 ^ 9), (25, 893 / 10 ^ 9), (30, 801 / 10 ^ 9), (40, 658 / 10 ^ 9),
      (50, 553 / 10 ^ 9), (60, 475 / 10 ^ 9), (70, 413 / 10 ^ 9), (80, 364 / 10 ^ 9),
      (90, 326 / 10 ^ 9), (100, 294 / 10 ^ 9)]"

definition density_table :: "(real \<times> real) list" where
  "density_table =
     [(0, 9998 / 10), (5, 1000), (10, 9997 / 10), (15, 9991 / 10), (20, 9982 / 10),
      (25, 997), (30, 9957 / 10), (40, 9922 / 10), (50, 988), (60, 9832 / 10),
      (70, 9778 / 10), (80, 9718 / 10), (90, 9653 / 10), (100, 9584 / 10)]"

text \<open>
  Both lookups share their body:
  \<^verbatim>\<open>temps = sorted(table.keys())\<close>;
  \<^verbatim>\<open>if temperature in temps: return table[temperature]\<close>;
  \<^verbatim>\<open>for i in range(len(temps) - 1): if temps[i] <= temperature <= temps[i + 1]: ...\<close>;
  \<^verbatim>\<open>return table[temps[-1]]\<close>.
  \<open>interpolate_scan\<close> is the \<^verbatim>\<open>for\<close> loop over the consecutive pairs of the sorted keys,
  each key carried with its tabulated value; \<open>None\<close> is the loop ending without a return.
  \<open>table_lookup\<close> is the rest of the body; the membership test and the dictionary read are
  the one \<open>map_of\<close>.
\<close>

fun interpolate_scan :: "(real \<times> real) list \<Rightarrow> real \<Rightarrow> real option" where
  "interpolate_scan ((t1, v1) # (t2, v2) # rest) temperature =
     (if t1 \<le> temperature \<and> temperature \<le> t2
      then Some (v1 + (v2 - v1) * (temperature - t1) / (t2 - t1))
      else interpolate_scan ((t2, v2) # rest) temperature)"
| "interpolate_scan rest temperature = None"

definition table_lookup :: "(real \<times> real) list \<Rightarrow> real \<Rightarrow> real" where
  "table_lookup table temperature =
     (let temps = sort_key fst table
      in case map_of table temperature of
           Some v \<Rightarrow> v
         | None \<Rightarrow>
             (case interpolate_scan temps temperature of
                Some v \<Rightarrow> v
              | None \<Rightarrow> snd (last temps)))"

text \<open>
  \<^verbatim>\<open>get_kinematic_viscosity\<close> starts with
  \<^verbatim>\<open>if temperature < 0 or temperature > 100: warnings.warn(...)\<close>
  and goes on with the lookup; it returns the value and the advisories it emitted.
\<close>

definition get_kinematic_viscosity :: "real \<Rightarrow> real \<times> advisory list" where
  "get_kinematic_viscosity temperature =
     (table_lookup viscosity_table temperature,
      if temperature < 0 \<or> temperature > 100 then [TemperatureOutsideRange temperature] else [])"

text \<open>
  \<^verbatim>\<open>get_water_density\<close> is the lookup alone: its body has no \<^verbatim>\<open>warnings.warn\<close>, and the
  advisory list it returns is the empty one for every temperature.
\<close>

definition get_water_density :: "real \<Rightarrow> real \<times> advisory list" where
  "get_water_density temperature = (table_lookup density_table temperature, [])"

section \<open>Hydraulic calculator: Reynolds number and friction factor\<close>

text \<open>
  \<^verbatim>\<open>if velocity <= 0 or diameter <= 0 or viscosity <= 0: raise ValueError(...)\<close>;
  \<^verbatim>\<open>return (velocity * diameter) / viscosity\<close>
\<close>

definition reynolds_number :: "real \<Rightarrow> real \<Rightarrow> real \<Rightarrow> py_error + real" where
  "reynolds_number velocity diameter viscosity =
     (if velocity \<le> 0 \<or> diameter \<le> 0 \<or> viscosity \<le> 0 then Inl ValueError
      else Inr ((velocity * diameter) / viscosity))"

text \<open>
  The explicit approximation.
  \<^verbatim>\<open>relative_roughness = roughness / diameter\<close>;
  \<^verbatim>\<open>term = relative_roughness / 3.7 + 5.74 / (reynolds ** 0.9)\<close>;
  \<^verbatim>\<open>return 0.25 / (np.log10(term) ** 2)\<close>.
  The two scalar divisions raise on a zero divisor; the last division is one of NumPy
  floats and raises nothing. The power \<^verbatim>\<open>reynolds ** 0.9\<close> is \<open>powr\<close>, which is what
  Python computes for a positive Reynolds number (the only ones \<^verbatim>\<open>calculate_system\<close>
  passes).
\<close>

definition swamee_jain_formula :: "real \<Rightarrow> real \<Rightarrow> real" where
  "swamee_jain_formula relative_roughness reynolds =
     (let term = relative_roughness / (37 / 10) + (574 / 100) / (reynolds powr (9 / 10))
      in (1 / 4) / (log 10 term) ^ 2)"

definition friction_factor_swamee_jain :: "real \<Rightarrow> real \<Rightarrow> real \<Rightarrow> py_error + real" where
  "friction_factor_swamee_jain reynolds roughness diameter =
     (if diameter = 0 \<or> reynolds = 0 then Inl ZeroDivisionError
      else Inr (swamee_jain_formula (roughness / diameter) reynolds))"

text \<open>
  The implicit solve. One pass of the loop body computes
  \<^verbatim>\<open>term1 = relative_roughness / 3.7\<close>, \<^verbatim>\<open>term2 = 2.51 / (reynolds * np.sqrt(f))\<close>,
  \<^verbatim>\<open>f = 0.25 / (np.log10(term1 + term2))**2\<close>.
\<close>

definition colebrook_step :: "real \<Rightarrow> real \<Rightarrow> real \<Rightarrow> real" where
  "colebrook_step relative_roughness reynolds f =
     (let term1 = relative_roughness / (37 / 10);
          term2 = (251 / 100) / (reynolds * sqrt f)
      in (1 / 4) / (log 10 (term1 + term2)) ^ 2)"

text \<open>
  \<^verbatim>\<open>for iteration in range(max_iter): f_old = f; f = ...; if abs(f - f_old) < tolerance: return f\<close>
  followed by \<^verbatim>\<open>raise RuntimeError(...)\<close>. The first argument counts the passes that are
  left.
\<close>

fun colebrook_loop :: "nat \<Rightarrow> real \<Rightarrow> real \<Rightarrow> real \<Rightarrow> real \<Rightarrow> py_error + real" where
  "colebrook_loop 0 relative_roughness reynolds tolerance f = Inl RuntimeError"
| "colebrook_loop (Suc n) relative_roughness reynolds tolerance f =
     (let f_old = f;
          f_new = colebrook_step relative_roughness reynolds f
      in if \<bar>f_new - f_old\<bar> < tolerance then Inr f_new
         else colebrook_loop n relative_roughness reynolds tolerance f_new)"

text \<open>
  \<^verbatim>\<open>if reynolds < 4000: raise ValueError(...)\<close>;
  \<^verbatim>\<open>relative_roughness = roughness / diameter\<close>;
  \<^verbatim>\<open>f = 0.25 / (np.log10(relative_roughness/3.7 + 5.74/reynolds**0.9))**2\<close>; then the loop.
  \<^verbatim>\<open>range(max_iter)\<close> is empty for a negative \<^verbatim>\<open>max_iter\<close>.
\<close>

definition friction_factor_colebrook ::
  "real \<Rightarrow> real \<Rightarrow> real \<Rightarrow> real \<Rightarrow> int \<Rightarrow> py_error + real" where
  "friction_factor_colebrook reynolds roughness diameter tolerance max_iter =
     (if reynolds < 4000 then Inl ValueError
      else if diameter = 0 then Inl ZeroDivisionError
      else let relative_roughness = roughness / diameter;
               f = (1 / 4) / (log 10 (relative_roughness / (37 / 10)
                                      + (574 / 100) / reynolds powr (9 / 10))) ^ 2
           in colebrook_loop (nat max_iter) relative_roughness reynolds tolerance f)"

text \<open>The defaults \<^verbatim>\<open>tolerance: float = 1e-6\<close> and \<^verbatim>\<open>max_iter: int = 100\<close>.\<close>

definition default_tolerance :: real where
  "default_tolerance = 1 / 10 ^ 6"

definition default_max_iter :: int where
  "default_max_iter = 100"

section \<open>Hydraulic calculator: head losses and the system calculation\<close>

text \<open>
  \<^verbatim>\<open>return friction_factor * (length / diameter) * (velocity ** 2) / (2 * GRAVITY)\<close>
\<close>

definition head_loss_darcy_weisbach :: "real \<Rightarrow> real \<Rightarrow> real \<Rightarrow> real \<Rightarrow> py_error + real" where
  "head_loss_darcy_weisbach friction_factor pipe_length diameter velocity =
     (if diameter = 0 then Inl ZeroDivisionError
      else Inr (friction_factor * (pipe_length / diameter) * (velocity ^ 2) / (2 * GRAVITY)))"

text \<open>\<^verbatim>\<open>return k_factor * (velocity ** 2) / (2 * GRAVITY)\<close>\<close>

definition minor_loss :: "real \<Rightarrow> real \<Rightarrow> real" where
  "minor_loss k_factor velocity = k_factor * (velocity ^ 2) / (2 * GRAVITY)"

text \<open>\<^verbatim>\<open>return density * GRAVITY * head\<close>\<close>

definition head_to_pressure :: "real \<Rightarrow> real \<Rightarrow> real" where
  "head_to_pressure head density = density * GRAVITY * head"

datatype flow_regime = Laminar | Transitional | Turbulent

record system_result =
  sr_velocity :: real
  sr_reynolds :: real
  sr_flow_regime :: flow_regime
  sr_friction_factor :: real
  sr_head_loss_friction :: real
  sr_head_loss_minor :: real
  sr_elevation_head :: real
  sr_total_head_loss :: real
  sr_pressure_drop :: real
  sr_density :: real
  sr_viscosity :: real

text \<open>Sequencing of calls that can raise: the first error ends the computation.\<close>

definition and_then :: "'e + 'a \<Rightarrow> ('a \<Rightarrow> 'e + 'b) \<Rightarrow> 'e + 'b" where
  "and_then r f = (case r of Inl e \<Rightarrow> Inl e | Inr v \<Rightarrow> f v)"

text \<open>
  The regime selection of \<^verbatim>\<open>calculate_system\<close>, the \<^verbatim>\<open>if\<close>/\<^verbatim>\<open>elif\<close>/\<^verbatim>\<open>else\<close> on the
  Reynolds number:
  \<^verbatim>\<open>if reynolds < 2300: flow_regime = "Laminar"; friction_factor = 64 / reynolds\<close>,
  \<^verbatim>\<open>elif reynolds < 4000: flow_regime = "Transitional"; friction_factor = self.friction_factor_swamee_jain(...)\<close>,
  \<^verbatim>\<open>else: flow_regime = "Turbulent"; friction_factor = self.friction_factor_colebrook(...)\<close>
  (the latter with its default tolerance and iteration budget).
\<close>

definition select_friction :: "real \<Rightarrow> real \<Rightarrow> real \<Rightarrow> py_error + (flow_regime \<times> real)" where
  "select_friction reynolds roughness diameter =
     (if reynolds < 2300 then
        (if reynolds = 0 then Inl ZeroDivisionError else Inr (Laminar, 64 / reynolds))
      else if reynolds < 4000 then
        and_then (friction_factor_swamee_jain reynolds roughness diameter)
          (\<lambda>friction_factor. Inr (Transitional, friction_factor))
      else
        and_then (friction_factor_colebrook reynolds roughness diameter
                    default_tolerance default_max_iter)
          (\<lambda>friction_factor. Inr (Turbulent, friction_factor)))"

text \<open>
  \<^verbatim>\<open>calculate_system\<close>, statement by statement. The result pairs the advisories emitted
  before the call ended with either the exception that ended it or the result dictionary.
\<close>

definition calculate_system ::
  "real \<Rightarrow> real \<Rightarrow> real \<Rightarrow> real \<Rightarrow> real list \<Rightarrow> real \<Rightarrow> real
     \<Rightarrow> advisory list \<times> (py_error + system_result)" where
  "calculate_system flow_rate diameter pipe_length roughness minor_losses_k temperature
       elevation_change =
     (case velocity_from_flow flow_rate diameter of
        Inl e \<Rightarrow> ([], Inl e)
      | Inr velocity \<Rightarrow>
          (let (viscosity, viscosity_advisories) = get_kinematic_viscosity temperature;
               (density, density_advisories) = get_water_density temperature
           in (viscosity_advisories @ density_advisories,
               and_then (reynolds_number velocity diameter viscosity) (\<lambda>reynolds.
               and_then (select_friction reynolds roughness diameter)
                 (\<lambda>(regime, friction_factor).
               and_then (head_loss_darcy_weisbach friction_factor pipe_length diameter velocity)
                 (\<lambda>head_loss_friction.
                 let head_loss_minor = sum_list (map (\<lambda>k. minor_loss k velocity) minor_losses_k);
                     total_head_loss = head_loss_friction + head_loss_minor + elevation_change;
                     pressure_drop = head_to_pressure total_head_loss density / 1000
                 in Inr \<lparr>sr_velocity = velocity, sr_reynolds = reynolds,
                         sr_flow_regime = regime, sr_friction_factor = friction_factor,
                         sr_head_loss_friction = head_loss_friction,
                         sr_head_loss_minor = head_loss_minor,
                         sr_elevation_head = elevation_change,
                         sr_total_head_loss = total_head_loss,
                         sr_pressure_drop = pressure_drop,
                         sr_density = density, sr_viscosity = viscosity\<rparr>))))))"

section \<open>Pump calculator: cavitation check\<close>

text \<open>
  The three status strings of \<^verbatim>\<open>cavitation_check\<close>: \<^verbatim>\<open>"RIESGO DE CAVITACION"\<close>,
  \<^verbatim>\<open>"ADVERTENCIA: Margen bajo"\<close> and \<^verbatim>\<open>"SEGURO"\<close>; the recommendation text goes with the
  status, one for one, and is left out of the record.
\<close>

datatype cavitation_status = RIESGO_DE_CAVITACION | ADVERTENCIA_MARGEN_BAJO | SEGURO

record cavitation_result =
  cav_safe :: bool
  cav_margin :: real
  cav_status :: cavitation_status
  cav_npsh_available :: real
  cav_npsh_required :: real

text \<open>
  \<^verbatim>\<open>margin = npsh_available - npsh_required; safe = margin >= safety_margin\<close>;
  \<^verbatim>\<open>if not safe: ... elif margin < 1.0: ... else: ...\<close>
\<close>

definition cavitation_check :: "real \<Rightarrow> real \<Rightarrow> real \<Rightarrow> cavitation_result" where
  "cavitation_check npsh_available npsh_required safety_margin =
     (let margin = npsh_available - npsh_required;
          safe = (margin \<ge> safety_margin);
          status = (if \<not> safe then RIESGO_DE_CAVITACION
                    else if margin < 1 then ADVERTENCIA_MARGEN_BAJO
                    else SEGURO)
      in \<lparr>cav_safe = safe, cav_margin = margin, cav_status = status,
          cav_npsh_available = npsh_available, cav_npsh_required = npsh_required\<rparr>)"

text \<open>The default of the keyword argument: \<^verbatim>\<open>safety_margin: float = 0.5\<close>.\<close>

definition default_safety_margin :: real where
  "default_safety_margin = 1 / 2"

section \<open>Pump calculator: curve generation and operating point\<close>

text \<open>
  \<^verbatim>\<open>np.linspace(start, stop, num)\<close> of NumPy, with the end point included: \<open>num\<close> samples
  \<open>start + i * step\<close>, \<open>step = (stop - start) / (num - 1)\<close>; the one sample \<open>start\<close> for
  \<open>num = 1\<close>, no sample for \<open>num = 0\<close>, and \<^verbatim>\<open>ValueError\<close> for a negative \<open>num\<close>.
\<close>

definition linspace :: "real \<Rightarrow> real \<Rightarrow> int \<Rightarrow> py_error + real list" where
  "linspace start stop num =
     (if num < 0 then Inl ValueError
      else if num = 1 then Inr [start]
      else Inr (map (\<lambda>i. start + real i * ((stop - start) / real_of_int (num - 1)))
                  [0..<nat num]))"

text \<open>
  \<^verbatim>\<open>np.argmin\<close> of NumPy on a one-dimensional array: the index of the first occurrence of
  the minimum, \<^verbatim>\<open>ValueError\<close> on an empty array. \<open>argmin_scan\<close> walks the rest of the array
  with the position reached, the best index so far and its value; only a strictly smaller
  value replaces the best.
\<close>

fun argmin_scan :: "real list \<Rightarrow> nat \<Rightarrow> nat \<Rightarrow> real \<Rightarrow> nat" where
  "argmin_scan [] i best_i best = best_i"
| "argmin_scan (x # xs) i best_i best =
     (if x < best then argmin_scan xs (Suc i) i x else argmin_scan xs (Suc i) best_i best)"

definition argmin :: "real list \<Rightarrow> py_error + nat" where
  "argmin xs = (case xs of [] \<Rightarrow> Inl ValueError | x # rest \<Rightarrow> Inr (argmin_scan rest 1 0 x))"

text \<open>
  The array expressions of \<^verbatim>\<open>generate_pump_curve\<close>, each as the function it applies to
  one sample of \<^verbatim>\<open>q_range\<close>.
  Head: \<^verbatim>\<open>h_shutoff = h_bep * 1.15\<close>, \<^verbatim>\<open>a = (h_shutoff - h_bep) / q_bep**2\<close>,
  \<^verbatim>\<open>h_range = h_shutoff - a * q_range**2\<close>, \<^verbatim>\<open>h_range = np.maximum(h_range, 0)\<close>.
\<close>

definition head_sample :: "real \<Rightarrow> real \<Rightarrow> real \<Rightarrow> real" where
  "head_sample q_bep h_bep q =
     (let h_shutoff = h_bep * (115 / 100);
          a = (h_shutoff - h_bep) / q_bep ^ 2
      in max (h_shutoff - a * q ^ 2) 0)"

text \<open>
  Efficiency: \<^verbatim>\<open>q_normalized = q_range / q_bep\<close>,
  \<^verbatim>\<open>efficiency_range = efficiency_bep * np.exp(-0.5 * ((q_normalized - 1) / 0.4)**2)\<close>,
  \<^verbatim>\<open>efficiency_range = np.clip(efficiency_range, 0.01, 1.0)\<close>.
\<close>

definition efficiency_sample :: "real \<Rightarrow> real \<Rightarrow> real \<Rightarrow> real" where
  "efficiency_sample q_bep efficiency_bep q =
     (let q_normalized = q / q_bep;
          efficiency = efficiency_bep * exp (- (1 / 2) * ((q_normalized - 1) / (4 / 10)) ^ 2)
      in min (max efficiency (1 / 100)) 1)"

text \<open>
  Power: \<^verbatim>\<open>density = 998.2\<close>, \<^verbatim>\<open>hydraulic_power = density * self.GRAVITY * q_range * h_range\<close>,
  \<^verbatim>\<open>power_range = hydraulic_power / efficiency_range\<close>.
\<close>

definition power_sample :: "real \<Rightarrow> real \<Rightarrow> real \<Rightarrow> real" where
  "power_sample q h efficiency =
     (let density = 9982 / 10;
          hydraulic_power = density * GRAVITY * q * h
      in hydraulic_power / efficiency)"

text \<open>The dictionary that \<^verbatim>\<open>generate_pump_curve\<close> builds, key by key.\<close>

record pump_curve =
  curve_flow :: "real list"
  curve_head :: "real list"
  curve_power :: "real list"
  curve_efficiency :: "real list"
  curve_q_bep :: real
  curve_h_bep :: real

text \<open>
  The object: \<^verbatim>\<open>__init__\<close> sets \<^verbatim>\<open>self.efficiency_data = None\<close> and
  \<^verbatim>\<open>self.curve_data = None\<close>. No method assigns \<^verbatim>\<open>efficiency_data\<close> again, so the type
  of its content is immaterial.
\<close>

record pump_calculator =
  efficiency_data :: "real list option"
  curve_data :: "pump_curve option"

definition new_pump_calculator :: pump_calculator where
  "new_pump_calculator = \<lparr>efficiency_data = None, curve_data = None\<rparr>"

text \<open>
  \<^verbatim>\<open>generate_pump_curve\<close>: the samples, the three curves, then
  \<^verbatim>\<open>self.curve_data = {...}\<close> and \<^verbatim>\<open>return self.curve_data\<close>. A method of the object
  is a function from the state of the object before the call to the outcome of the call
  (the exception raised or the value returned) and the state after it. An exception of
  \<^verbatim>\<open>generate_pump_curve\<close> is raised before the assignment and leaves the object as it
  was. The argument \<^verbatim>\<open>power_bep\<close> is not read by the body.
\<close>

definition generate_pump_curve ::
  "pump_calculator \<Rightarrow> real \<Rightarrow> real \<Rightarrow> real \<Rightarrow> real \<Rightarrow> int
     \<Rightarrow> (py_error + pump_curve) \<times> pump_calculator" where
  "generate_pump_curve self q_bep h_bep power_bep efficiency_bep num_points =
     (case linspace 0 ((15 / 10) * q_bep) num_points of
        Inl e \<Rightarrow> (Inl e, self)
      | Inr q_range \<Rightarrow>
          if q_bep ^ 2 = 0 then (Inl ZeroDivisionError, self)
          else
            let h_range = map (head_sample q_bep h_bep) q_range;
                efficiency_range = map (efficiency_sample q_bep efficiency_bep) q_range;
                power_range = map (\<lambda>(q, h, efficiency). power_sample q h efficiency)
                                (zip q_range (zip h_range efficiency_range));
                curve = \<lparr>curve_flow = q_range, curve_head = h_range,
                         curve_power = power_range, curve_efficiency = efficiency_range,
                         curve_q_bep = q_bep, curve_h_bep = h_bep\<rparr>
            in (Inr curve, self\<lparr>curve_data := Some curve\<rparr>))"

text \<open>The defaults \<^verbatim>\<open>efficiency_bep: float = 0.80\<close> and \<^verbatim>\<open>num_points: int = 50\<close>.\<close>

definition default_efficiency_bep :: real where
  "default_efficiency_bep = 80 / 100"

definition default_num_points :: int where
  "default_num_points = 50"

text \<open>
  The two dictionaries \<^verbatim>\<open>operating_point\<close> receives, with the keys the method reads.
  \<^verbatim>\<open>pump_curve_params\<close> is passed on as keyword arguments, so the two keys with a default
  may be absent; a dictionary that lacks another key is outside the model.
\<close>

record system_curve_params =
  h_static :: real
  k_coefficient :: real

record pump_curve_params =
  pcp_q_bep :: real
  pcp_h_bep :: real
  pcp_power_bep :: real
  pcp_efficiency_bep :: "real option"
  pcp_num_points :: "int option"

record operating_point_result =
  op_flow_operating :: real
  op_head_operating :: real
  op_power_operating :: real
  op_efficiency_operating :: real
  op_system_curve :: "real list"
  op_pump_curve :: "real list"
  op_flow_range :: "real list"

text \<open>
  \<^verbatim>\<open>h_system = h_static + k * q_range**2\<close>, \<^verbatim>\<open>diff = np.abs(h_pump - h_system)\<close>,
  \<^verbatim>\<open>idx_op = np.argmin(diff)\<close>, and the four reads at \<^verbatim>\<open>idx_op\<close>. When \<^verbatim>\<open>np.argmin\<close>
  raises (on a curve of no samples), the curve is in the field of the object already.
\<close>

definition operating_point ::
  "pump_calculator \<Rightarrow> system_curve_params \<Rightarrow> pump_curve_params
     \<Rightarrow> (py_error + operating_point_result) \<times> pump_calculator" where
  "operating_point self sys params =
     (case generate_pump_curve self (pcp_q_bep params) (pcp_h_bep params) (pcp_power_bep params)
             (case pcp_efficiency_bep params of None \<Rightarrow> default_efficiency_bep | Some e \<Rightarrow> e)
             (case pcp_num_points params of None \<Rightarrow> default_num_points | Some n \<Rightarrow> n) of
        (Inl e, self') \<Rightarrow> (Inl e, self')
      | (Inr curve, self') \<Rightarrow>
          let q_range = curve_flow curve;
              h_system = map (\<lambda>q. h_static sys + k_coefficient sys * q ^ 2) q_range;
              h_pump = curve_head curve;
              diff = map (\<lambda>(hp, hs). \<bar>hp - hs\<bar>) (zip h_pump h_system)
          in (case argmin diff of
                Inl e \<Rightarrow> (Inl e, self')
              | Inr idx_op \<Rightarrow>
                  (Inr \<lparr>op_flow_operating = q_range ! idx_op,
                        op_head_operating = h_pump ! idx_op,
                        op_power_operating = curve_power curve ! idx_op,
                        op_efficiency_operating = curve_efficiency curve ! idx_op,
                        op_system_curve = h_system,
                        op_pump_curve = h_pump,
                        op_flow_range = q_range\<rparr>, self')))"

section \<open>Standards: pipe-size selection\<close>

text \<open>\<^verbatim>\<open>STANDARD_PIPE_SIZES\<close>, nominal diameters in millimetres.\<close>

definition STANDARD_PIPE_SIZES :: "int list" where
  "STANDARD_PIPE_SIZES =
     [6, 8, 10, 15, 20, 25, 32, 40, 50, 65, 80, 100, 125, 150, 200,
      250, 300, 350, 400, 450, 500, 600, 700, 800, 900, 1000, 1200]"

text \<open>
  The two dictionaries \<^verbatim>\<open>select_pipe_size\<close> can return: the one with
  \<^verbatim>\<open>'status': 'ERROR'\<close> (its message text is left out) and the one with \<^verbatim>\<open>'status': 'OK'\<close>.
\<close>

record pipe_size_ok =
  required_diameter_mm :: real
  recommended_dn :: int
  actual_velocity :: real
  flow_rate_m3h :: real
  next_sizes :: "int list"

datatype pipe_size_result = STATUS_ERROR | STATUS_OK pipe_size_ok

text \<open>
  \<^verbatim>\<open>area_required = flow_rate / max_velocity\<close>;
  \<^verbatim>\<open>diameter_required = np.sqrt(4 * area_required / np.pi) * 1000\<close>;
  \<^verbatim>\<open>suitable_sizes = [dn for dn in Standards.STANDARD_PIPE_SIZES if dn >= diameter_required]\<close>;
  \<^verbatim>\<open>if not suitable_sizes: return {'status': 'ERROR', ...}\<close>;
  \<^verbatim>\<open>recommended_dn = suitable_sizes[0]\<close>; \<^verbatim>\<open>diameter_m = recommended_dn / 1000\<close>;
  \<^verbatim>\<open>area = np.pi * (diameter_m / 2)**2\<close>; \<^verbatim>\<open>actual_velocity = flow_rate / area\<close>.
  NumPy's square root of a negative number is NaN, and every comparison with NaN is false:
  no size is suitable then, which the model writes out (HOL's \<open>sqrt\<close> is negative there).
\<close>

definition select_pipe_size :: "real \<Rightarrow> real \<Rightarrow> py_error + pipe_size_result" where
  "select_pipe_size flow_rate max_velocity =
     (if max_velocity = 0 then Inl ZeroDivisionError
      else
        let area_required = flow_rate / max_velocity;
            diameter_required = sqrt (4 * area_required / pi) * 1000;
            suitable_sizes =
              (if 4 * area_required / pi < 0 then []
               else filter (\<lambda>dn. real_of_int dn \<ge> diameter_required) STANDARD_PIPE_SIZES)
        in case suitable_sizes of
             [] \<Rightarrow> Inr STATUS_ERROR
           | recommended # others \<Rightarrow>
               let diameter_m = real_of_int recommended / 1000;
                   area = pi * (diameter_m / 2) ^ 2
               in if area = 0 then Inl ZeroDivisionError
                  else Inr (STATUS_OK
                    \<lparr>required_diameter_mm = diameter_required,
                     recommended_dn = recommended,
                     actual_velocity = flow_rate / area,
                     flow_rate_m3h = flow_rate * 3600,
                     next_sizes = (if length suitable_sizes > 1 then take 3 suitable_sizes
                                   else suitable_sizes)\<rparr>))"

section \<open>Notions used to state the properties\<close>

text \<open>The regime tag as a function of the Reynolds number alone, boundaries 2300 and 4000.\<close>

definition regime_of :: "real \<Rightarrow> flow_regime" where
  "regime_of reynolds =
     (if reynolds < 2300 then Laminar else if reynolds < 4000 then Transitional else Turbulent)"

text \<open>
  The iterates of the Colebrook-White fixed-point map from a seed, and the convergence test
  of the loop at pass \<open>k\<close> (counted from 0): iterate \<open>k + 1\<close> against iterate \<open>k\<close>.
\<close>

definition colebrook_iterate :: "real \<Rightarrow> real \<Rightarrow> real \<Rightarrow> nat \<Rightarrow> real" where
  "colebrook_iterate relative_roughness reynolds seed k =
     ((colebrook_step relative_roughness reynolds) ^^ k) seed"

definition converged_at :: "real \<Rightarrow> real \<Rightarrow> real \<Rightarrow> real \<Rightarrow> nat \<Rightarrow> bool" where
  "converged_at rr Rey seed tol k \<longleftrightarrow>
     \<bar>colebrook_iterate rr Rey seed (Suc k) - colebrook_iterate rr Rey seed k\<bar> < tol"

text \<open>
  The logarithm in one pass of the loop for a smooth pipe (relative roughness 0) at Reynolds
  number 4000.
\<close>

definition smooth_log :: "real \<Rightarrow> real" where
  "smooth_log f = log 10 ((251 / 100) / (4000 * sqrt f))"

text \<open>
  The absolute difference between pump head and system head at sample \<open>j\<close> of a curve.
\<close>

definition head_gap :: "system_curve_params \<Rightarrow> pump_curve \<Rightarrow> nat \<Rightarrow> real" where
  "head_gap sys curve j =
     \<bar>curve_head curve ! j - (h_static sys + k_coefficient sys * (curve_flow curve ! j) ^ 2)\<bar>"

text \<open>
  An input on which two samples tie: three samples of the curve with BEP flow 1 and BEP head
  1, against a flat system curve half-way between the first two heads; and a second flat
  system curve, at the height of the last head.
\<close>

definition tie_system :: system_curve_params where
  "tie_system = \<lparr>h_static = 709 / 640, k_coefficient = 0\<rparr>"

definition low_system :: system_curve_params where
  "low_system = \<lparr>h_static = 13 / 16, k_coefficient = 0\<rparr>"

definition tie_pump :: pump_curve_params where
  "tie_pump = \<lparr>pcp_q_bep = 1, pcp_h_bep = 1, pcp_power_bep = 5000,
                pcp_efficiency_bep = Some (4 / 5), pcp_num_points = Some 3\<rparr>"

section \<open>Theorems\<close>

subsection \<open>Fluid property lookups outside the table\<close>

lemma sorted_viscosity_table: "sort_key fst viscosity_table = viscosity_table"
  by (simp add: viscosity_table_def)

lemma sorted_density_table: "sort_key fst density_table = density_table"
  by (simp add: density_table_def)

lemma interpolate_scan_below:
  "temperature < 0 \<Longrightarrow>
     interpolate_scan viscosity_table temperature = None \<and>
     interpolate_scan density_table temperature = None \<and>
     map_of viscosity_table temperature = None \<and>
     map_of density_table temperature = None"
  by (simp add: viscosity_table_def density_table_def)

lemma interpolate_scan_above:
  "100 < temperature \<Longrightarrow>
     interpolate_scan viscosity_table temperature = None \<and>
     interpolate_scan density_table temperature = None \<and>
     map_of viscosity_table temperature = None \<and>
     map_of density_table temperature = None"
  by (simp add: viscosity_table_def density_table_def)

lemma last_tables:
  "last viscosity_table = (100, 294 / 10 ^ 9)" "last density_table = (100, 9584 / 10)"
  by (simp_all add: viscosity_table_def density_table_def)

lemma lookup_outside_range:
  assumes "temperature < 0 \<or> 100 < temperature"
  shows "get_kinematic_viscosity temperature
           = (294 / 10 ^ 9, [TemperatureOutsideRange temperature]) \<and>
         get_water_density temperature = (9584 / 10, [])"
proof -
  have none: "interpolate_scan viscosity_table temperature = None \<and>
     interpolate_scan density_table temperature = None \<and>
     map_of viscosity_table temperature = None \<and>
     map_of density_table temperature = None"
    using assms interpolate_scan_below interpolate_scan_above by blast
  have "table_lookup viscosity_table temperature = 294 / 10 ^ 9"
    unfolding table_lookup_def sorted_viscosity_table Let_def
    using none by (simp add: last_tables)
  moreover have "table_lookup density_table temperature = 9584 / 10"
    unfolding table_lookup_def sorted_density_table Let_def
    using none by (simp add: last_tables)
  ultimately show ?thesis
    using assms by (simp add: get_kinematic_viscosity_def get_water_density_def)
qed

text \<open>
  Claim C1, evaluated below the table. At \<open>-5\<close> degrees the viscosity lookup emits its
  advisory and returns the value tabulated for 100 degrees, not the one for 0 degrees; the
  density lookup returns the value tabulated for 100 degrees as well, and emits no advisory,
  neither below nor above the table.
\<close>

theorem lookup_below_range_returns_top_anchor:
  "get_kinematic_viscosity (- 5) = (294 / 10 ^ 9, [TemperatureOutsideRange (- 5)]) \<and>
   get_kinematic_viscosity 0 = (1787 / 10 ^ 9, []) \<and>
   get_kinematic_viscosity 100 = (294 / 10 ^ 9, []) \<and>
   get_water_density (- 5) = (9584 / 10, []) \<and>
   get_water_density 0 = (9998 / 10, []) \<and>
   get_water_density 100 = (9584 / 10, []) \<and>
   get_water_density 105 = (9584 / 10, [])"
  by (simp add: get_kinematic_viscosity_def get_water_density_def table_lookup_def
        sorted_viscosity_table sorted_density_table Let_def)
     (simp add: viscosity_table_def density_table_def)

subsection \<open>Cavitation check\<close>

text \<open>
  Claim C3, as amended. \<open>cavitation_check\<close> reports the margin \<open>available - required\<close> and
  the flag \<open>safe\<close>, true exactly when the margin is at least the safety margin. The status
  has three tiers: the cavitation-risk status exactly when the margin is below the safety
  margin; the low-margin warning exactly when the margin is at least the safety margin and
  below 1; \<open>SEGURO\<close> exactly when the margin is at least the safety margin and at least 1.
\<close>

theorem cavitation_check_tiers:
  "cav_margin (cavitation_check a r m) = a - r \<and>
   (cav_safe (cavitation_check a r m) \<longleftrightarrow> m \<le> a - r) \<and>
   (cav_status (cavitation_check a r m) = RIESGO_DE_CAVITACION \<longleftrightarrow> a - r < m) \<and>
   (cav_status (cavitation_check a r m) = ADVERTENCIA_MARGEN_BAJO \<longleftrightarrow> m \<le> a - r \<and> a - r < 1) \<and>
   (cav_status (cavitation_check a r m) = SEGURO \<longleftrightarrow> m \<le> a - r \<and> 1 \<le> a - r)"
  by (auto simp add: cavitation_check_def Let_def)

text \<open>
  With the default safety margin 0.5: a margin of 0.7 is at least the safety margin and the
  status is the warning, not \<open>SEGURO\<close>; a margin of 0.2 lies between 0 and 1 and the status
  is the cavitation risk, with \<open>safe\<close> false.
\<close>

theorem cavitation_status_counterexample:
  "default_safety_margin \<le> cav_margin (cavitation_check (17 / 10) 1 default_safety_margin) \<and>
   cav_safe (cavitation_check (17 / 10) 1 default_safety_margin) \<and>
   cav_status (cavitation_check (17 / 10) 1 default_safety_margin) = ADVERTENCIA_MARGEN_BAJO \<and>
   cav_status (cavitation_check (17 / 10) 1 default_safety_margin) \<noteq> SEGURO \<and>
   0 \<le> cav_margin (cavitation_check (12 / 10) 1 default_safety_margin) \<and>
   cav_margin (cavitation_check (12 / 10) 1 default_safety_margin) < 1 \<and>
   \<not> cav_safe (cavitation_check (12 / 10) 1 default_safety_margin) \<and>
   cav_status (cavitation_check (12 / 10) 1 default_safety_margin) = RIESGO_DE_CAVITACION"
  by (simp add: cavitation_check_def default_safety_margin_def Let_def)

subsection \<open>Sequencing\<close>

lemma and_then_Inr_iff: "and_then r f = Inr y \<longleftrightarrow> (\<exists>v. r = Inr v \<and> f v = Inr y)"
  by (cases r) (simp_all add: and_then_def)

subsection \<open>The implicit friction-factor solve\<close>

lemma colebrook_iterate_shift:
  "colebrook_iterate rr Rey (colebrook_step rr Rey f) k = colebrook_iterate rr Rey f (Suc k)"
  by (simp add: colebrook_iterate_def funpow_swap1)

lemma converged_at_shift:
  "converged_at rr Rey (colebrook_step rr Rey f) tol k = converged_at rr Rey f tol (Suc k)"
  by (simp add: converged_at_def colebrook_iterate_shift del: funpow.simps)

lemma converged_at_0:
  "converged_at rr Rey f tol 0 \<longleftrightarrow> \<bar>colebrook_step rr Rey f - f\<bar> < tol"
  by (simp add: converged_at_def colebrook_iterate_def)

lemma colebrook_loop_Inr:
  "colebrook_loop n rr Rey tol f = Inr g \<Longrightarrow>
     \<exists>k<n. g = colebrook_iterate rr Rey f (Suc k) \<and> converged_at rr Rey f tol k \<and>
            (\<forall>j<k. \<not> converged_at rr Rey f tol j)"
proof (induction n arbitrary: f)
  case 0
  then show ?case by simp
next
  case (Suc n)
  show ?case
  proof (cases "\<bar>colebrook_step rr Rey f - f\<bar> < tol")
    case True
    with Suc.prems have "g = colebrook_step rr Rey f"
      by (simp add: Let_def)
    with True show ?thesis
      by (intro exI [of _ 0]) (simp add: converged_at_0 colebrook_iterate_def)
  next
    case False
    with Suc.prems have "colebrook_loop n rr Rey tol (colebrook_step rr Rey f) = Inr g"
      by (simp add: Let_def)
    from Suc.IH [OF this] obtain k where k: "k < n"
      "g = colebrook_iterate rr Rey (colebrook_step rr Rey f) (Suc k)"
      "converged_at rr Rey (colebrook_step rr Rey f) tol k"
      "\<forall>j<k. \<not> converged_at rr Rey (colebrook_step rr Rey f) tol j"
      by blast
    have "\<forall>j<Suc k. \<not> converged_at rr Rey f tol j"
    proof (intro allI impI)
      fix j assume "j < Suc k"
      show "\<not> converged_at rr Rey f tol j"
      proof (cases j)
        case 0
        with False show ?thesis by (simp add: converged_at_0)
      next
        case (Suc i)
        with \<open>j < Suc k\<close> k(4) show ?thesis
          by (simp add: converged_at_shift)
      qed
    qed
    with k show ?thesis
      by (intro exI [of _ "Suc k"]) (simp add: converged_at_shift colebrook_iterate_shift)
  qed
qed

lemma colebrook_loop_Inl:
  "colebrook_loop n rr Rey tol f = Inl e \<Longrightarrow>
     e = RuntimeError \<and> (\<forall>k<n. \<not> converged_at rr Rey f tol k)"
proof (induction n arbitrary: f)
  case 0
  then show ?case by simp
next
  case (Suc n)
  from Suc.prems have nc: "\<not> \<bar>colebrook_step rr Rey f - f\<bar> < tol"
    by (auto simp add: Let_def split: if_splits)
  with Suc.prems have "colebrook_loop n rr Rey tol (colebrook_step rr Rey f) = Inl e"
    by (simp add: Let_def)
  from Suc.IH [OF this] have ih: "e = RuntimeError"
    "\<forall>k<n. \<not> converged_at rr Rey (colebrook_step rr Rey f) tol k"
    by blast+
  have "\<forall>k<Suc n. \<not> converged_at rr Rey f tol k"
  proof (intro allI impI)
    fix k assume "k < Suc n"
    show "\<not> converged_at rr Rey f tol k"
    proof (cases k)
      case 0
      with nc show ?thesis by (simp add: converged_at_0)
    next
      case (Suc i)
      with \<open>k < Suc n\<close> ih(2) show ?thesis
        by (simp add: converged_at_shift)
    qed
  qed
  with ih(1) show ?case by simp
qed

text \<open>
  Claim C5. For a Reynolds number of at least 4000 and a positive diameter,
  \<open>friction_factor_colebrook\<close> starts from the value that the explicit Swamee-Jain
  approximation returns and has two outcomes only. Either it returns iterate \<open>k + 1\<close> for a
  pass \<open>k\<close> within the budget, that iterate differs from iterate \<open>k\<close> by less than the
  tolerance, and no earlier pass met the tolerance; or it raises \<open>RuntimeError\<close> (not the
  \<open>ValueError\<close> of the guard), and then no pass within the budget met the tolerance. A value
  that missed the tolerance is never returned, the seed included.
\<close>

theorem colebrook_converges_or_raises:
  assumes "4000 \<le> Rey" and "0 < D"
  shows "friction_factor_swamee_jain Rey eps D = Inr (swamee_jain_formula (eps / D) Rey) \<and>
         (\<forall>f. friction_factor_colebrook Rey eps D tol n = Inr f \<longrightarrow>
            (\<exists>k. int k < n \<and>
                 f = colebrook_iterate (eps / D) Rey (swamee_jain_formula (eps / D) Rey) (Suc k) \<and>
                 converged_at (eps / D) Rey (swamee_jain_formula (eps / D) Rey) tol k \<and>
                 (\<forall>j<k. \<not> converged_at (eps / D) Rey (swamee_jain_formula (eps / D) Rey) tol j))) \<and>
         (\<forall>e. friction_factor_colebrook Rey eps D tol n = Inl e \<longrightarrow>
            e = RuntimeError \<and>
            (\<forall>k. int k < n \<longrightarrow>
                 \<not> converged_at (eps / D) Rey (swamee_jain_formula (eps / D) Rey) tol k))"
proof -
  define rr where "rr = eps / D"
  define seed where "seed = swamee_jain_formula rr Rey"
  have start: "friction_factor_swamee_jain Rey eps D = Inr seed"
    using assms by (simp add: friction_factor_swamee_jain_def seed_def rr_def)
  have eq: "friction_factor_colebrook Rey eps D tol n = colebrook_loop (nat n) rr Rey tol seed"
    using assms
    by (simp add: friction_factor_colebrook_def swamee_jain_formula_def seed_def rr_def Let_def)
  have returned: "\<exists>k. int k < n \<and> f = colebrook_iterate rr Rey seed (Suc k) \<and>
            converged_at rr Rey seed tol k \<and> (\<forall>j<k. \<not> converged_at rr Rey seed tol j)"
    if "friction_factor_colebrook Rey eps D tol n = Inr f" for f
  proof -
    from that eq have "colebrook_loop (nat n) rr Rey tol seed = Inr f"
      by simp
    from colebrook_loop_Inr [OF this] obtain k where "k < nat n"
      and rest: "f = colebrook_iterate rr Rey seed (Suc k)" "converged_at rr Rey seed tol k"
        "\<forall>j<k. \<not> converged_at rr Rey seed tol j"
      by blast
    from \<open>k < nat n\<close> have "int k < n" by simp
    with rest show ?thesis by blast
  qed
  have raised: "e = RuntimeError \<and> (\<forall>k. int k < n \<longrightarrow> \<not> converged_at rr Rey seed tol k)"
    if "friction_factor_colebrook Rey eps D tol n = Inl e" for e
  proof -
    from that eq have l: "colebrook_loop (nat n) rr Rey tol seed = Inl e"
      by simp
    from colebrook_loop_Inl [OF l] have "e = RuntimeError"
      and none: "\<forall>k<nat n. \<not> converged_at rr Rey seed tol k"
      by blast+
    moreover have "\<not> converged_at rr Rey seed tol k" if "int k < n" for k
    proof -
      from that have "k < nat n" by simp
      with none show ?thesis by blast
    qed
    ultimately show ?thesis by blast
  qed
  from start returned raised show ?thesis
    unfolding seed_def rr_def by blast
qed

text \<open>
  Two runs at Reynolds number 4000 in a smooth pipe of diameter 1. The seed lies between 1/36
  and 1/4 and the first iterate between 1/36 and 1/16, so with tolerance 1 the first pass
  returns the first iterate; with tolerance 0 no pass can succeed and the budget of 100
  passes ends in \<open>RuntimeError\<close>.
\<close>

lemma powr_4000_bounds: "63 < (4000::real) powr (9 / 10)" "(4000::real) powr (9 / 10) \<le> 4000"
proof -
  have "(63::real) ^ 2 < 4000" by simp
  then have "63 < sqrt 4000" by (rule real_less_rsqrt)
  also have "sqrt 4000 = (4000::real) powr (1 / 2)"
    by (simp add: powr_half_sqrt)
  also have "\<dots> \<le> 4000 powr (9 / 10)"
    by (rule powr_mono) simp_all
  finally show "63 < (4000::real) powr (9 / 10)" .
  have "(4000::real) powr (9 / 10) \<le> 4000 powr 1"
    by (rule powr_mono) simp_all
  then show "(4000::real) powr (9 / 10) \<le> 4000" by simp
qed

lemma log10_window:
  assumes "1 / 10 ^ m < x" and "x < 1 / 10 ^ n"
  shows "- real m < log 10 x" and "log 10 x < - real n"
proof -
  have pos: "0 < x"
    using assms(1) by (rule less_trans [rotated]) simp
  have p: "(10::real) powr (- real k) = 1 / 10 ^ k" for k
    by (simp add: powr_minus powr_realpow divide_inverse)
  from assms(1) have "10 powr (- real m) < x" by (simp only: p)
  with pos show "- real m < log 10 x"
    by (simp add: less_log_iff)
  from assms(2) have "x < 10 powr (- real n)" by (simp only: p)
  with pos show "log 10 x < - real n"
    by (simp add: log_less_iff)
qed

lemma quarter_over_square:
  fixes L :: real
  assumes "- b < L" and "L < - a" and "0 < a"
  shows "(1 / 4) / b ^ 2 < (1 / 4) / L ^ 2" and "(1 / 4) / L ^ 2 < (1 / 4) / a ^ 2"
proof -
  from assms have n: "a < - L" "- L < b" "0 \<le> - L" "0 \<le> a" by simp_all
  have "a ^ 2 < (- L) ^ 2"
    using n(1,4) by (rule power_strict_mono) simp
  moreover have "(- L) ^ 2 < b ^ 2"
    using n(2,3) by (rule power_strict_mono) simp
  ultimately have sq: "a ^ 2 < L ^ 2" "L ^ 2 < b ^ 2" by simp_all
  have apos: "0 < a ^ 2" using assms(3) by simp
  from sq apos have lpos: "0 < L ^ 2" by linarith
  from sq lpos have bpos: "0 < b ^ 2" by linarith
  have q: "(0::real) < 1 / 4" by simp
  show "(1 / 4) / b ^ 2 < (1 / 4) / L ^ 2"
    using sq(2) q mult_pos_pos [OF bpos lpos] by (rule divide_strict_left_mono)
  show "(1 / 4) / L ^ 2 < (1 / 4) / a ^ 2"
    using sq(1) q mult_pos_pos [OF lpos apos] by (rule divide_strict_left_mono)
qed

lemma seed_4000_bounds:
  "1 / 36 < swamee_jain_formula 0 4000" "swamee_jain_formula 0 4000 < 1 / 4"
proof -
  define x where "x = (574 / 100) / ((4000::real) powr (9 / 10))"
  have "x < (574 / 100) / 63"
    unfolding x_def using powr_4000_bounds(1) by (intro divide_strict_left_mono) simp_all
  then have hi: "x < 1 / 10 ^ 1" by simp
  have "(574 / 100) / 4000 \<le> x"
    unfolding x_def using powr_4000_bounds(2) by (intro divide_left_mono) simp_all
  then have lo: "1 / 10 ^ 3 < x" by simp
  from log10_window [OF lo hi] have "- 3 < log 10 x" "log 10 x < - 1" by simp_all
  from quarter_over_square [OF this] have "(1 / 4) / 3 ^ 2 < (1 / 4) / (log 10 x) ^ 2"
    "(1 / 4) / (log 10 x) ^ 2 < (1 / 4) / 1 ^ 2" by simp_all
  moreover have "swamee_jain_formula 0 4000 = (1 / 4) / (log 10 x) ^ 2"
    by (simp add: swamee_jain_formula_def x_def Let_def)
  ultimately show "1 / 36 < swamee_jain_formula 0 4000" "swamee_jain_formula 0 4000 < 1 / 4"
    by simp_all
qed

lemma step_4000_bounds:
  assumes "1 / 36 < f" and "f < 1 / 4"
  shows "1 / 36 < colebrook_step 0 4000 f" and "colebrook_step 0 4000 f < 1 / 16"
proof -
  have "(1 / 6) ^ 2 < f" using assms(1) by (simp add: power2_eq_square)
  then have s1: "1 / 6 < sqrt f" by (rule real_less_rsqrt)
  have "f < (1 / 2) ^ 2" using assms(2) by (simp add: power2_eq_square)
  then have s2: "sqrt f < 1 / 2"
    using assms(1) by (intro real_less_lsqrt) simp_all
  define t where "t = (251 / 100) / (4000 * sqrt f)"
  from assms(1) have "0 < f" by simp
  then have fpos: "0 < 4000 * sqrt f" by simp
  have c: "(0::real) < 251 / 100" by simp
  have lt1: "4000 * (1 / 6) < 4000 * sqrt f" using s1 by simp
  have "0 < 4000 * sqrt f * (4000 * (1 / 6))" using fpos by simp
  with lt1 c have "t < (251 / 100) / (4000 * (1 / 6))"
    unfolding t_def by (rule divide_strict_left_mono)
  then have hi: "t < 1 / 10 ^ 2" by simp
  have lt2: "4000 * sqrt f < 4000 * (1 / 2)" using s2 by simp
  have "0 < 4000 * (1 / 2) * (4000 * sqrt f)" using fpos by simp
  with lt2 c have "(251 / 100) / (4000 * (1 / 2)) < t"
    unfolding t_def by (rule divide_strict_left_mono)
  then have lo: "1 / 10 ^ 3 < t" by simp
  from log10_window [OF lo hi] have "- 3 < log 10 t" "log 10 t < - 2" by simp_all
  from quarter_over_square [OF this] have "(1 / 4) / 3 ^ 2 < (1 / 4) / (log 10 t) ^ 2"
    "(1 / 4) / (log 10 t) ^ 2 < (1 / 4) / 2 ^ 2" by simp_all
  moreover have "colebrook_step 0 4000 f = (1 / 4) / (log 10 t) ^ 2"
    by (simp add: colebrook_step_def t_def Let_def)
  ultimately show "1 / 36 < colebrook_step 0 4000 f" and "colebrook_step 0 4000 f < 1 / 16"
    by simp_all
qed

lemma first_pass_converges:
  "converged_at 0 4000 (swamee_jain_formula 0 4000) 1 0"
proof -
  note seed = seed_4000_bounds
  note nxt = step_4000_bounds [OF seed]
  from seed nxt have "\<bar>colebrook_step 0 4000 (swamee_jain_formula 0 4000)
                      - swamee_jain_formula 0 4000\<bar> < 1"
    by linarith
  then show ?thesis by (simp add: converged_at_0)
qed

theorem colebrook_converges_or_raises_witness:
  "friction_factor_colebrook 4000 0 1 1 100
     = Inr (colebrook_step 0 4000 (swamee_jain_formula 0 4000)) \<and>
   friction_factor_colebrook 4000 0 1 0 100 = Inl RuntimeError"
proof -
  have pre: "(4000::real) \<le> 4000" "(0::real) < 1" by simp_all
  note one = colebrook_converges_or_raises [OF pre, of 0 1 100, simplified]
  note zero = colebrook_converges_or_raises [OF pre, of 0 0 100, simplified]
  have a: "friction_factor_colebrook 4000 0 1 1 100
             = Inr (colebrook_step 0 4000 (swamee_jain_formula 0 4000))"
  proof (cases "friction_factor_colebrook 4000 0 1 1 100")
    case (Inl e)
    with one have "\<not> converged_at 0 4000 (swamee_jain_formula 0 4000) 1 0"
      by simp
    with first_pass_converges show ?thesis by simp
  next
    case (Inr f)
    with one obtain k where
      f: "f = colebrook_iterate 0 4000 (swamee_jain_formula 0 4000) (Suc k)"
      and nc: "\<forall>j<k. \<not> converged_at 0 4000 (swamee_jain_formula 0 4000) 1 j"
      by auto
    from nc first_pass_converges have "k = 0"
      by (cases k) auto
    with f have "f = colebrook_step 0 4000 (swamee_jain_formula 0 4000)"
      by (simp add: colebrook_iterate_def)
    with Inr show ?thesis by simp
  qed
  have b: "friction_factor_colebrook 4000 0 1 0 100 = Inl RuntimeError"
  proof (cases "friction_factor_colebrook 4000 0 1 0 100")
    case (Inl e)
    with zero show ?thesis by simp
  next
    case (Inr f)
    with zero obtain k where "converged_at 0 4000 (swamee_jain_formula 0 4000) 0 k"
      by auto
    then show ?thesis by (simp add: converged_at_def)
  qed
  from a b show ?thesis ..
qed

subsection \<open>Convergence of the implicit solve in a smooth pipe at Reynolds number 4000\<close>

text \<open>
  On the interval from 1/36 to 1/4, which holds the seed and every iterate, one pass of the
  loop is a contraction with factor 9/16 at most, so the difference of successive iterates
  falls below the default tolerance after 30 passes at the latest.
\<close>

lemma ln_10_gt_2: "2 < ln (10::real)"
proof -
  have "exp (2::real) = exp 1 ^ 2"
    using exp_double [of "1::real"] by simp
  also have "\<dots> \<le> 3 ^ 2"
    using exp_le by (intro power_mono) simp_all
  also have "\<dots> < (10::real)" by simp
  finally have "exp 2 < exp (ln (10::real))" by simp
  then show ?thesis by (simp only: exp_less_cancel_iff)
qed

lemma ln_increment:
  fixes x y :: real
  assumes "0 < x" and "x \<le> y"
  shows "0 \<le> ln y - ln x" and "ln y - ln x \<le> (y - x) / x"
proof -
  from assms have ypos: "0 < y" by simp
  from assms ypos show "0 \<le> ln y - ln x" by simp
  have "ln y - ln x = ln (y / x)"
    using assms(1) ypos by (simp add: ln_divide_pos)
  also have "\<dots> \<le> y / x - 1"
    using assms(1) ypos by (intro ln_le_minus_one) simp
  also have "\<dots> = (y - x) / x"
    using assms(1) by (simp add: diff_divide_distrib)
  finally show "ln y - ln x \<le> (y - x) / x" .
qed

lemma ln_lipschitz:
  fixes x y :: real
  assumes "1 / 36 < x" and "1 / 36 < y"
  shows "\<bar>ln x - ln y\<bar> \<le> 36 * \<bar>x - y\<bar>"
proof -
  have one: "\<bar>ln b - ln a\<bar> \<le> 36 * \<bar>b - a\<bar>" if "1 / 36 < a" and "a \<le> b" for a b :: real
  proof -
    from that have apos: "0 < a" by simp
    from ln_increment [OF apos that(2)] have "0 \<le> ln b - ln a" "ln b - ln a \<le> (b - a) / a"
      by simp_all
    moreover have "(b - a) / a \<le> (b - a) / (1 / 36)"
      using that by (intro divide_left_mono) simp_all
    ultimately show ?thesis using that(2) by simp
  qed
  show ?thesis
  proof (cases "x \<le> y")
    case True
    from one [OF assms(1) True] show ?thesis by (simp add: abs_minus_commute)
  next
    case False
    then have "y \<le> x" by simp
    from one [OF assms(2) this] show ?thesis by simp
  qed
qed

lemma smooth_step: "colebrook_step 0 4000 f = (1 / 4) / (smooth_log f) ^ 2"
  by (simp add: colebrook_step_def smooth_log_def Let_def)

lemma smooth_log_ln:
  assumes "0 < f"
  shows "smooth_log f = (ln (251 / 400000) - ln f / 2) / ln 10"
proof -
  have "ln ((251 / 100) / (4000 * sqrt f)) = ln ((251 / 400000) / sqrt f)"
    by simp
  also have "\<dots> = ln (251 / 400000) - ln (sqrt f)"
    using assms by (intro ln_divide_pos) simp_all
  also have "ln (sqrt f) = ln f / 2"
    using assms by (intro ln_sqrt) simp
  finally show ?thesis
    by (simp add: smooth_log_def log_def)
qed

lemma smooth_log_lipschitz:
  assumes "1 / 36 < x" and "1 / 36 < y"
  shows "\<bar>smooth_log x - smooth_log y\<bar> \<le> 9 * \<bar>x - y\<bar>"
proof -
  from assms have pos: "0 < x" "0 < y" by simp_all
  have "smooth_log x - smooth_log y = (ln y - ln x) / (2 * ln 10)"
    by (simp add: smooth_log_ln pos diff_divide_distrib)
  then have "\<bar>smooth_log x - smooth_log y\<bar> = \<bar>ln y - ln x\<bar> / (2 * ln 10)"
    using ln_10_gt_2 by simp
  also have "\<dots> \<le> \<bar>ln y - ln x\<bar> / (2 * 2)"
    using ln_10_gt_2 by (intro divide_left_mono) simp_all
  also have "\<dots> \<le> (36 * \<bar>y - x\<bar>) / (2 * 2)"
    using ln_lipschitz [OF assms(2,1)] by (intro divide_right_mono) simp_all
  also have "\<dots> = 9 * \<bar>x - y\<bar>"
    by (simp add: abs_minus_commute)
  finally show ?thesis .
qed

lemma smooth_log_window:
  assumes "1 / 36 < f" and "f < 1 / 4"
  shows "- 3 < smooth_log f" and "smooth_log f < - 2"
proof -
  have "(1 / 6) ^ 2 < f" using assms(1) by (simp add: power2_eq_square)
  then have s1: "1 / 6 < sqrt f" by (rule real_less_rsqrt)
  have "f < (1 / 2) ^ 2" using assms(2) by (simp add: power2_eq_square)
  then have s2: "sqrt f < 1 / 2"
    using assms(1) by (intro real_less_lsqrt) simp_all
  define t where "t = (251 / 100) / (4000 * sqrt f)"
  from assms(1) have "0 < f" by simp
  then have fpos: "0 < 4000 * sqrt f" by simp
  have c: "(0::real) < 251 / 100" by simp
  have lt1: "4000 * (1 / 6) < 4000 * sqrt f" using s1 by simp
  have "0 < 4000 * sqrt f * (4000 * (1 / 6))" using fpos by simp
  with lt1 c have "t < (251 / 100) / (4000 * (1 / 6))"
    unfolding t_def by (rule divide_strict_left_mono)
  then have hi: "t < 1 / 10 ^ 2" by simp
  have lt2: "4000 * sqrt f < 4000 * (1 / 2)" using s2 by simp
  have "0 < 4000 * (1 / 2) * (4000 * sqrt f)" using fpos by simp
  with lt2 c have "(251 / 100) / (4000 * (1 / 2)) < t"
    unfolding t_def by (rule divide_strict_left_mono)
  then have lo: "1 / 10 ^ 3 < t" by simp
  from log10_window [OF lo hi] show "- 3 < smooth_log f" and "smooth_log f < - 2"
    by (simp_all add: smooth_log_def t_def)
qed

lemma inverse_square_lipschitz:
  fixes L M :: real
  assumes "- 3 < L" "L < - 2" "- 3 < M" "M < - 2"
  shows "\<bar>1 / L ^ 2 - 1 / M ^ 2\<bar> \<le> \<bar>L - M\<bar> / 4"
proof -
  define u where "u = 1 / L"
  define v where "v = 1 / M"
  from assms have nz: "L \<noteq> 0" "M \<noteq> 0" by simp_all
  from assms have LM: "4 < L * M"
  proof -
    from assms have "2 < - L" "2 < - M" by simp_all
    then have "2 * 2 < (- L) * (- M)"
      by (intro mult_strict_mono) simp_all
    then show ?thesis by simp
  qed
  have "u - v = (M - L) / (L * M)"
    using nz by (simp add: u_def v_def field_simps)
  moreover have "\<bar>(M - L) / (L * M)\<bar> = \<bar>M - L\<bar> / \<bar>L * M\<bar>"
    by (rule abs_divide)
  moreover have "\<bar>L * M\<bar> = L * M"
    using LM by (intro abs_of_pos) simp
  ultimately have "\<bar>u - v\<bar> = \<bar>M - L\<bar> / (L * M)"
    by (simp only:)
  also have "\<dots> \<le> \<bar>M - L\<bar> / 4"
    using LM by (intro divide_left_mono) simp_all
  finally have d: "\<bar>u - v\<bar> \<le> \<bar>L - M\<bar> / 4"
    by (simp add: abs_minus_commute)
  have ub: "- (1 / 2) < u" "u < 0" "- (1 / 2) < v" "v < 0"
    using assms by (simp_all add: u_def v_def field_simps)
  then have s: "\<bar>u + v\<bar> \<le> 1" by simp
  have "1 / L ^ 2 - 1 / M ^ 2 = (u - v) * (u + v)"
    by (simp add: u_def v_def power2_eq_square algebra_simps)
  then have "\<bar>1 / L ^ 2 - 1 / M ^ 2\<bar> = \<bar>u - v\<bar> * \<bar>u + v\<bar>"
    by (simp add: abs_mult)
  also have "\<dots> \<le> \<bar>u - v\<bar> * 1"
    using s by (intro mult_left_mono) simp_all
  also have "\<dots> \<le> \<bar>L - M\<bar> / 4"
    using d by simp
  finally show ?thesis .
qed

lemma smooth_step_contracts:
  assumes "1 / 36 < x" "x < 1 / 4" "1 / 36 < y" "y < 1 / 4"
  shows "\<bar>colebrook_step 0 4000 x - colebrook_step 0 4000 y\<bar> \<le> (9 / 16) * \<bar>x - y\<bar>"
proof -
  note wx = smooth_log_window [OF assms(1,2)]
  note wy = smooth_log_window [OF assms(3,4)]
  have "colebrook_step 0 4000 x - colebrook_step 0 4000 y
          = (1 / 4) * (1 / (smooth_log x) ^ 2 - 1 / (smooth_log y) ^ 2)"
    by (simp add: smooth_step algebra_simps)
  moreover have "\<bar>(1 / 4) * (1 / (smooth_log x) ^ 2 - 1 / (smooth_log y) ^ 2)\<bar>
          = \<bar>1 / 4 :: real\<bar> * \<bar>1 / (smooth_log x) ^ 2 - 1 / (smooth_log y) ^ 2\<bar>"
    by (rule abs_mult)
  moreover have "\<bar>1 / 4 :: real\<bar> = 1 / 4" by simp
  ultimately have "\<bar>colebrook_step 0 4000 x - colebrook_step 0 4000 y\<bar>
          = (1 / 4) * \<bar>1 / (smooth_log x) ^ 2 - 1 / (smooth_log y) ^ 2\<bar>"
    by (simp only:)
  also have "\<dots> \<le> (1 / 4) * (\<bar>smooth_log x - smooth_log y\<bar> / 4)"
    using inverse_square_lipschitz [OF wx wy] by (intro mult_left_mono) simp_all
  also have "\<dots> \<le> (1 / 4) * ((9 * \<bar>x - y\<bar>) / 4)"
    using smooth_log_lipschitz [OF assms(1,3)]
    by (intro mult_left_mono divide_right_mono) simp_all
  also have "\<dots> = (9 / 16) * \<bar>x - y\<bar>" by simp
  finally show ?thesis .
qed

lemma colebrook_iterate_Suc:
  "colebrook_iterate rr Rey seed (Suc k) = colebrook_step rr Rey (colebrook_iterate rr Rey seed k)"
  by (simp add: colebrook_iterate_def)

lemma smooth_iterates_window:
  "1 / 36 < colebrook_iterate 0 4000 (swamee_jain_formula 0 4000) k \<and>
   colebrook_iterate 0 4000 (swamee_jain_formula 0 4000) k < 1 / 4"
proof (induction k)
  case 0
  show ?case using seed_4000_bounds by (simp add: colebrook_iterate_def)
next
  case (Suc k)
  from Suc have w: "1 / 36 < colebrook_iterate 0 4000 (swamee_jain_formula 0 4000) k"
    "colebrook_iterate 0 4000 (swamee_jain_formula 0 4000) k < 1 / 4" by simp_all
  from step_4000_bounds [OF w] show ?case
    unfolding colebrook_iterate_Suc by simp
qed

lemma smooth_iterates_gap:
  "\<bar>colebrook_iterate 0 4000 (swamee_jain_formula 0 4000) (Suc k)
     - colebrook_iterate 0 4000 (swamee_jain_formula 0 4000) k\<bar> \<le> (9 / 16) ^ k * (2 / 9)"
proof (induction k)
  case 0
  define a where "a = colebrook_iterate 0 4000 (swamee_jain_formula 0 4000) 0"
  define b where "b = colebrook_iterate 0 4000 (swamee_jain_formula 0 4000) (Suc 0)"
  from smooth_iterates_window [of 0] have "1 / 36 < a" "a < 1 / 4"
    by (simp_all add: a_def)
  moreover from smooth_iterates_window [of "Suc 0"] have "1 / 36 < b" "b < 1 / 4"
    by (simp_all add: b_def)
  ultimately have "\<bar>b - a\<bar> \<le> 2 / 9" by linarith
  then show ?case by (simp add: a_def b_def)
next
  case (Suc k)
  define a where "a = colebrook_iterate 0 4000 (swamee_jain_formula 0 4000) k"
  define b where "b = colebrook_iterate 0 4000 (swamee_jain_formula 0 4000) (Suc k)"
  from smooth_iterates_window [of k] have wa: "1 / 36 < a" "a < 1 / 4"
    by (simp_all add: a_def)
  from smooth_iterates_window [of "Suc k"] have wb: "1 / 36 < b" "b < 1 / 4"
    by (simp_all add: b_def)
  from Suc have ih: "\<bar>b - a\<bar> \<le> (9 / 16) ^ k * (2 / 9)"
    by (simp only: a_def b_def)
  have "\<bar>colebrook_step 0 4000 b - colebrook_step 0 4000 a\<bar> \<le> (9 / 16) * \<bar>b - a\<bar>"
    by (rule smooth_step_contracts [OF wb wa])
  also have "\<dots> \<le> (9 / 16) * ((9 / 16) ^ k * (2 / 9))"
    using ih by (intro mult_left_mono) simp_all
  also have "\<dots> = (9 / 16) ^ Suc k * (2 / 9)" by simp
  finally have "\<bar>colebrook_step 0 4000 b - colebrook_step 0 4000 a\<bar>
      \<le> (9 / 16) ^ Suc k * (2 / 9)" .
  moreover have "colebrook_step 0 4000 a = b"
    by (simp only: a_def b_def colebrook_iterate_Suc)
  moreover have "colebrook_iterate 0 4000 (swamee_jain_formula 0 4000) (Suc (Suc k))
      = colebrook_step 0 4000 b"
    by (simp only: b_def colebrook_iterate_Suc)
  ultimately show ?case
    by (simp only: b_def [symmetric])
qed

lemma smooth_pass_30_converges:
  "converged_at 0 4000 (swamee_jain_formula 0 4000) default_tolerance 30"
proof -
  have "(9 / 16) ^ 30 * (2 / 9) < (1 / 10 ^ 6 :: real)"
    by (simp add: power_divide)
  with smooth_iterates_gap [of 30] show ?thesis
    by (simp add: converged_at_def default_tolerance_def)
qed

lemma smooth_colebrook_returns:
  "\<exists>f. friction_factor_colebrook 4000 0 (1 / 10) default_tolerance default_max_iter = Inr f"
proof -
  have eq: "friction_factor_colebrook 4000 0 (1 / 10) default_tolerance default_max_iter
        = colebrook_loop 100 0 4000 default_tolerance (swamee_jain_formula 0 4000)"
    by (simp add: friction_factor_colebrook_def swamee_jain_formula_def default_max_iter_def
          Let_def)
  show ?thesis
  proof (cases "colebrook_loop 100 0 4000 default_tolerance (swamee_jain_formula 0 4000)")
    case (Inl e)
    from colebrook_loop_Inl [OF Inl]
    have "\<not> converged_at 0 4000 (swamee_jain_formula 0 4000) default_tolerance 30"
      by simp
    with smooth_pass_30_converges show ?thesis by simp
  next
    case (Inr f)
    with eq show ?thesis by simp
  qed
qed

subsection \<open>Regime selection in the system calculation\<close>

lemma select_friction_Inr:
  assumes "select_friction reynolds roughness diameter = Inr (regime, f)"
  shows "regime = regime_of reynolds \<and>
         (reynolds < 2300 \<longrightarrow> f = 64 / reynolds) \<and>
         (2300 \<le> reynolds \<and> reynolds < 4000 \<longrightarrow>
            friction_factor_swamee_jain reynolds roughness diameter = Inr f) \<and>
         (4000 \<le> reynolds \<longrightarrow>
            friction_factor_colebrook reynolds roughness diameter
              default_tolerance default_max_iter = Inr f)"
  using assms
  by (auto simp add: select_friction_def regime_of_def and_then_Inr_iff split: if_splits)

lemma calculate_system_Inr:
  assumes "snd (calculate_system Q D L eps ks T dz) = Inr r"
  shows "select_friction (sr_reynolds r) eps D = Inr (sr_flow_regime r, sr_friction_factor r)"
  using assms
  by (auto simp add: calculate_system_def and_then_Inr_iff Let_def
           split: sum.splits prod.splits)

text \<open>
  Every record that \<open>calculate_system\<close> returns carries the regime of its Reynolds number and
  the friction factor of that regime.
\<close>

lemma returned_regime:
  assumes "snd (calculate_system Q D L eps ks T dz) = Inr r"
  shows "sr_flow_regime r = regime_of (sr_reynolds r) \<and>
         (sr_reynolds r < 2300 \<longrightarrow>
            sr_flow_regime r = Laminar \<and> sr_friction_factor r = 64 / sr_reynolds r) \<and>
         (2300 \<le> sr_reynolds r \<and> sr_reynolds r < 4000 \<longrightarrow>
            sr_flow_regime r = Transitional \<and>
            friction_factor_swamee_jain (sr_reynolds r) eps D = Inr (sr_friction_factor r)) \<and>
         (4000 \<le> sr_reynolds r \<longrightarrow>
            sr_flow_regime r = Turbulent \<and>
            friction_factor_colebrook (sr_reynolds r) eps D default_tolerance default_max_iter
              = Inr (sr_friction_factor r))"
  using select_friction_Inr [OF calculate_system_Inr [OF assms]]
  by (simp add: regime_of_def)

lemma select_friction_laminar:
  assumes "0 < Rey" and "Rey < 2300"
  shows "select_friction Rey eps D = Inr (Laminar, 64 / Rey)"
  using assms by (simp add: select_friction_def)

lemma select_friction_transitional:
  assumes "2300 \<le> Rey" and "Rey < 4000" and "D \<noteq> 0"
  shows "select_friction Rey eps D = Inr (Transitional, swamee_jain_formula (eps / D) Rey)"
    and "friction_factor_swamee_jain Rey eps D = Inr (swamee_jain_formula (eps / D) Rey)"
  using assms by (simp_all add: select_friction_def friction_factor_swamee_jain_def and_then_def)

lemma select_friction_turbulent:
  assumes "4000 \<le> Rey"
  shows "select_friction Rey eps D =
           (case friction_factor_colebrook Rey eps D default_tolerance default_max_iter of
              Inl e \<Rightarrow> Inl e | Inr f \<Rightarrow> Inr (Turbulent, f))"
  using assms by (simp add: select_friction_def and_then_def)

lemma calculate_system_after_reynolds:
  assumes "velocity_from_flow Q D = Inr v"
    and "reynolds_number v D (fst (get_kinematic_viscosity T)) = Inr Rey"
  shows "select_friction Rey eps D = Inl e \<Longrightarrow> snd (calculate_system Q D L eps ks T dz) = Inl e"
    and "select_friction Rey eps D = Inr (regime, f) \<Longrightarrow>
           \<exists>r. snd (calculate_system Q D L eps ks T dz) = Inr r \<and> sr_velocity r = v \<and>
               sr_reynolds r = Rey \<and> sr_flow_regime r = regime \<and> sr_friction_factor r = f"
proof -
  from assms(2) have D: "D \<noteq> 0"
    by (auto simp add: reynolds_number_def split: if_splits)
  show "select_friction Rey eps D = Inl e \<Longrightarrow> snd (calculate_system Q D L eps ks T dz) = Inl e"
    using assms by (simp add: calculate_system_def and_then_def Let_def case_prod_beta)
  show "select_friction Rey eps D = Inr (regime, f) \<Longrightarrow>
           \<exists>r. snd (calculate_system Q D L eps ks T dz) = Inr r \<and> sr_velocity r = v \<and>
               sr_reynolds r = Rey \<and> sr_flow_regime r = regime \<and> sr_friction_factor r = f"
    using assms D
    by (simp add: calculate_system_def and_then_def head_loss_darcy_weisbach_def Let_def
          case_prod_beta)
qed

lemma reynolds_positive: "reynolds_number v D nu = Inr Rey \<Longrightarrow> 0 < Rey \<and> 0 < D"
  by (auto simp add: reynolds_number_def not_le split: if_splits)

text \<open>
  Claim C4. Take a call of \<open>calculate_system\<close> that gets as far as a Reynolds number \<open>Re\<close>
  (the velocity is computed and \<open>reynolds_number\<close> accepts its arguments). Then regime tag
  and friction factor are decided by \<open>Re\<close> with the boundaries 2300 and 4000. For
  \<open>Re < 2300\<close> the call returns, tagged laminar, with friction factor \<open>64 / Re\<close>. For
  \<open>2300 \<le> Re < 4000\<close> the call returns, tagged transitional, with the friction factor that
  the explicit Swamee-Jain approximation gives. For \<open>Re \<ge> 4000\<close> the call does what the
  Colebrook-White solve does with its default tolerance and budget: if the solve returns a
  friction factor, the call returns with it, tagged turbulent; if the solve raises, the call
  raises the same. In every case a returned record carries \<open>Re\<close> and the tag \<open>regime_of Re\<close>;
  2300 itself is transitional and 4000 itself turbulent.
\<close>

theorem regime_by_reynolds:
  assumes "velocity_from_flow Q D = Inr v"
    and "reynolds_number v D (fst (get_kinematic_viscosity T)) = Inr Rey"
  shows "(Rey < 2300 \<longrightarrow>
            (\<exists>r. snd (calculate_system Q D L eps ks T dz) = Inr r \<and> sr_reynolds r = Rey \<and>
                 sr_flow_regime r = Laminar \<and> sr_friction_factor r = 64 / Rey)) \<and>
         (2300 \<le> Rey \<and> Rey < 4000 \<longrightarrow>
            (\<exists>r. snd (calculate_system Q D L eps ks T dz) = Inr r \<and> sr_reynolds r = Rey \<and>
                 sr_flow_regime r = Transitional \<and>
                 friction_factor_swamee_jain Rey eps D = Inr (sr_friction_factor r) \<and>
                 sr_friction_factor r = swamee_jain_formula (eps / D) Rey)) \<and>
         (4000 \<le> Rey \<longrightarrow>
            (\<forall>f. friction_factor_colebrook Rey eps D default_tolerance default_max_iter = Inr f
                 \<longrightarrow> (\<exists>r. snd (calculate_system Q D L eps ks T dz) = Inr r \<and>
                          sr_reynolds r = Rey \<and> sr_flow_regime r = Turbulent \<and>
                          sr_friction_factor r = f)) \<and>
            (\<forall>e. friction_factor_colebrook Rey eps D default_tolerance default_max_iter = Inl e
                 \<longrightarrow> snd (calculate_system Q D L eps ks T dz) = Inl e)) \<and>
         (\<forall>r. snd (calculate_system Q D L eps ks T dz) = Inr r \<longrightarrow>
               sr_reynolds r = Rey \<and> sr_flow_regime r = regime_of Rey)"
proof -
  from reynolds_positive [OF assms(2)] have pos: "0 < Rey" and D: "D \<noteq> 0" by simp_all
  have lam: "\<exists>r. snd (calculate_system Q D L eps ks T dz) = Inr r \<and> sr_reynolds r = Rey \<and>
                 sr_flow_regime r = Laminar \<and> sr_friction_factor r = 64 / Rey"
    if "Rey < 2300"
  proof -
    have sel: "select_friction Rey eps D = Inr (Laminar, 64 / Rey)"
      by (rule select_friction_laminar [OF pos that])
    from calculate_system_after_reynolds(2) [OF assms sel] show ?thesis by blast
  qed
  have tra: "\<exists>r. snd (calculate_system Q D L eps ks T dz) = Inr r \<and> sr_reynolds r = Rey \<and>
                 sr_flow_regime r = Transitional \<and>
                 friction_factor_swamee_jain Rey eps D = Inr (sr_friction_factor r) \<and>
                 sr_friction_factor r = swamee_jain_formula (eps / D) Rey"
    if "2300 \<le> Rey" and "Rey < 4000"
  proof -
    have sel: "select_friction Rey eps D = Inr (Transitional, swamee_jain_formula (eps / D) Rey)"
      by (rule select_friction_transitional(1) [OF that D])
    have sj: "friction_factor_swamee_jain Rey eps D = Inr (swamee_jain_formula (eps / D) Rey)"
      by (rule select_friction_transitional(2) [OF that D])
    from calculate_system_after_reynolds(2) [OF assms sel] obtain r where
      "snd (calculate_system Q D L eps ks T dz) = Inr r" "sr_reynolds r = Rey"
      "sr_flow_regime r = Transitional" "sr_friction_factor r = swamee_jain_formula (eps / D) Rey"
      by blast
    with sj show ?thesis by auto
  qed
  have tur1: "\<exists>r. snd (calculate_system Q D L eps ks T dz) = Inr r \<and>
                          sr_reynolds r = Rey \<and> sr_flow_regime r = Turbulent \<and>
                          sr_friction_factor r = f"
    if "4000 \<le> Rey"
      and "friction_factor_colebrook Rey eps D default_tolerance default_max_iter = Inr f" for f
  proof -
    from that have "select_friction Rey eps D = Inr (Turbulent, f)"
      by (simp add: select_friction_turbulent)
    from calculate_system_after_reynolds(2) [OF assms this] show ?thesis by blast
  qed
  have tur2: "snd (calculate_system Q D L eps ks T dz) = Inl e"
    if "4000 \<le> Rey"
      and "friction_factor_colebrook Rey eps D default_tolerance default_max_iter = Inl e" for e
  proof -
    from that have "select_friction Rey eps D = Inl e"
      by (simp add: select_friction_turbulent)
    then show ?thesis by (rule calculate_system_after_reynolds(1) [OF assms])
  qed
  have ret: "sr_reynolds r = Rey \<and> sr_flow_regime r = regime_of Rey"
    if r: "snd (calculate_system Q D L eps ks T dz) = Inr r" for r
  proof (cases "select_friction Rey eps D")
    case (Inl e)
    from calculate_system_after_reynolds(1) [OF assms Inl, of L ks dz] r show ?thesis by simp
  next
    case (Inr p)
    obtain regime f where p: "p = (regime, f)" by (cases p)
    from calculate_system_after_reynolds(2) [OF assms Inr [unfolded p], of L ks dz] r
    have "sr_reynolds r = Rey" "sr_flow_regime r = regime"
      by auto
    moreover from select_friction_Inr [OF Inr [unfolded p]] have "regime = regime_of Rey"
      by simp
    ultimately show ?thesis by simp
  qed
  from lam tra tur1 tur2 ret show ?thesis by blast
qed

text \<open>
  Three runs in a pipe of diameter 0.1 at 20 degrees: one at Reynolds number
  \<open>100000 / (251 * pi)\<close>, about 127, one at exactly 2300 and one, in a smooth pipe, at
  exactly 4000, where the solve converges within its budget.
\<close>

lemma viscosity_at_20: "get_kinematic_viscosity 20 = (251 / 250000000, [])"
  by (simp add: get_kinematic_viscosity_def table_lookup_def viscosity_table_def)

lemma density_at_20: "get_water_density 20 = (4991 / 5, [])"
  by (simp add: get_water_density_def table_lookup_def density_table_def)

lemma laminar_velocity: "velocity_from_flow (1 / 100000) (1 / 10) = Inr (1 / (250 * pi))"
  by (simp add: velocity_from_flow_def Let_def power2_eq_square)

lemma laminar_reynolds_bound: "100000 / (251 * pi) < 2300"
proof -
  have "100000 < 2300 * (251 * 2 :: real)" by simp
  also have "\<dots> \<le> 2300 * (251 * pi)" using pi_ge_two by simp
  finally show ?thesis
    by (simp add: pos_divide_less_eq)
qed

lemma boundary_velocity:
  "velocity_from_flow (5773 * pi / 10 ^ 8) (1 / 10) = Inr (5773 / 250000)"
  "velocity_from_flow (251 * pi / 2500000) (1 / 10) = Inr (251 / 6250)"
  by (simp_all add: velocity_from_flow_def Let_def power2_eq_square)

lemma boundary_reynolds:
  "reynolds_number (1 / (250 * pi)) (1 / 10) (fst (get_kinematic_viscosity 20))
     = Inr (100000 / (251 * pi))"
  "reynolds_number (5773 / 250000) (1 / 10) (fst (get_kinematic_viscosity 20)) = Inr 2300"
  "reynolds_number (251 / 6250) (1 / 10) (fst (get_kinematic_viscosity 20)) = Inr 4000"
  using pi_gt_zero by (simp_all add: viscosity_at_20 reynolds_number_def not_le)

theorem regime_by_reynolds_witness:
  "(\<exists>r. snd (calculate_system (1 / 100000) (1 / 10) 100 (1 / 20000) [1 / 2, 9 / 10] 20 0) = Inr r \<and>
        sr_reynolds r = 100000 / (251 * pi) \<and> sr_flow_regime r = Laminar \<and>
        sr_friction_factor r = 64 / (100000 / (251 * pi))) \<and>
   (\<exists>r. snd (calculate_system (5773 * pi / 10 ^ 8) (1 / 10) 100 (1 / 20000) [1 / 2, 9 / 10] 20 0)
          = Inr r \<and>
        sr_reynolds r = 2300 \<and> sr_flow_regime r = Transitional \<and>
        sr_friction_factor r = swamee_jain_formula ((1 / 20000) / (1 / 10)) 2300) \<and>
   (\<exists>r. snd (calculate_system (251 * pi / 2500000) (1 / 10) 100 0 [1 / 2, 9 / 10] 20 0) = Inr r \<and>
        sr_reynolds r = 4000 \<and> sr_flow_regime r = Turbulent \<and>
        friction_factor_colebrook 4000 0 (1 / 10) default_tolerance default_max_iter
          = Inr (sr_friction_factor r))"
proof -
  note lam = regime_by_reynolds [OF laminar_velocity boundary_reynolds(1),
      of 100 "1 / 20000" "[1 / 2, 9 / 10]" 0]
  note tra = regime_by_reynolds [OF boundary_velocity(1) boundary_reynolds(2),
      of 100 "1 / 20000" "[1 / 2, 9 / 10]" 0]
  note tur = regime_by_reynolds [OF boundary_velocity(2) boundary_reynolds(3),
      of 100 0 "[1 / 2, 9 / 10]" 0]
  from lam laminar_reynolds_bound
  have a: "\<exists>r. snd (calculate_system (1 / 100000) (1 / 10) 100 (1 / 20000) [1 / 2, 9 / 10] 20 0)
              = Inr r \<and>
        sr_reynolds r = 100000 / (251 * pi) \<and> sr_flow_regime r = Laminar \<and>
        sr_friction_factor r = 64 / (100000 / (251 * pi))"
    by blast
  have "(2300::real) \<le> 2300 \<and> (2300::real) < 4000" by simp
  with tra
  have b: "\<exists>r. snd (calculate_system (5773 * pi / 10 ^ 8) (1 / 10) 100 (1 / 20000)
                      [1 / 2, 9 / 10] 20 0) = Inr r \<and>
        sr_reynolds r = 2300 \<and> sr_flow_regime r = Transitional \<and>
        sr_friction_factor r = swamee_jain_formula ((1 / 20000) / (1 / 10)) 2300"
    by blast
  from smooth_colebrook_returns obtain f where
    f: "friction_factor_colebrook 4000 0 (1 / 10) default_tolerance default_max_iter = Inr f"
    by blast
  have "(4000::real) \<le> 4000" by simp
  with tur f
  have "\<exists>r. snd (calculate_system (251 * pi / 2500000) (1 / 10) 100 0 [1 / 2, 9 / 10] 20 0)
              = Inr r \<and>
        sr_reynolds r = 4000 \<and> sr_flow_regime r = Turbulent \<and> sr_friction_factor r = f"
    by blast
  with f
  have c: "\<exists>r. snd (calculate_system (251 * pi / 2500000) (1 / 10) 100 0 [1 / 2, 9 / 10] 20 0)
              = Inr r \<and>
        sr_reynolds r = 4000 \<and> sr_flow_regime r = Turbulent \<and>
        friction_factor_colebrook 4000 0 (1 / 10) default_tolerance default_max_iter
          = Inr (sr_friction_factor r)"
    by auto
  from a b c show ?thesis by blast
qed

text \<open>
  The same run at \<open>-5\<close> degrees: the calculation goes through, with the one advisory of the
  viscosity lookup, and works with the viscosity and density tabulated for 100 degrees.
\<close>

lemma cold_lookups:
  "get_kinematic_viscosity (- 5) = (147 / 500000000, [TemperatureOutsideRange (- 5)])"
  "get_water_density (- 5) = (4792 / 5, [])"
  using lookup_outside_range [of "- 5"] by simp_all

lemma cold_reynolds:
  "reynolds_number (1 / (250 * pi)) (1 / 10) (147 / 500000000) = Inr (200000 / (147 * pi))"
  using pi_gt_zero by (simp add: reynolds_number_def not_le)

lemma cold_reynolds_bound: "200000 / (147 * pi) < 2300"
proof -
  have "200000 < 2300 * (147 * 2 :: real)" by simp
  also have "\<dots> \<le> 2300 * (147 * pi)" using pi_ge_two by simp
  finally show ?thesis
    by (simp add: pos_divide_less_eq)
qed

lemma cold_select:
  "select_friction (200000 / (147 * pi)) eps D = Inr (Laminar, 64 / (200000 / (147 * pi)))"
  using cold_reynolds_bound by (simp add: select_friction_def)

lemma cold_system:
  "\<exists>r. calculate_system (1 / 100000) (1 / 10) 100 (1 / 20000) [1 / 2, 9 / 10] (- 5) 0
          = ([TemperatureOutsideRange (- 5)], Inr r) \<and>
       sr_viscosity r = 294 / 10 ^ 9 \<and> sr_density r = 9584 / 10"
  unfolding calculate_system_def laminar_velocity cold_lookups
  by (simp add: cold_reynolds cold_select and_then_def head_loss_darcy_weisbach_def Let_def
           del: One_nat_def)

subsection \<open>Velocity and flow conversions\<close>

text \<open>
  Claim C6. For every flow rate \<open>Q\<close> and every positive diameter \<open>D\<close>, the velocity
  computed by \<open>velocity_from_flow\<close> exists (no division by zero) and \<open>flow_from_velocity\<close>
  maps it back to \<open>Q\<close>: the round trip is the identity in exact real arithmetic.
\<close>

theorem flow_velocity_round_trip:
  assumes "0 < D"
  shows "\<exists>v. velocity_from_flow Q D = Inr v \<and> flow_from_velocity v D = Q"
proof -
  have "D \<noteq> 0"
    using assms by simp
  then show ?thesis
    by (simp add: velocity_from_flow_def flow_from_velocity_def Let_def)
qed

theorem flow_velocity_round_trip_witness:
  "(0::real) < 1 / 10 \<and>
   (\<exists>v. velocity_from_flow (1 / 100) (1 / 10) = Inr v \<and> flow_from_velocity v (1 / 10) = 1 / 100)"
proof -
  have h: "(0::real) < 1 / 10" by simp
  show ?thesis
    using h flow_velocity_round_trip [OF h, of "1 / 100"] by simp
qed

subsection \<open>Affinity laws\<close>

text \<open>
  Claim C7. For all positive speeds \<open>n1\<close> and \<open>n2\<close>, the three affinity laws return
  \<open>Q * (n2 / n1)\<close>, \<open>H * (n2 / n1)\<^sup>2\<close> and \<open>P * (n2 / n1)\<^sup>3\<close>; each result is a function of
  the three arguments alone.
\<close>

theorem affinity_laws_scaling:
  assumes "0 < n1" and "0 < n2"
  shows "affinity_laws_flow Q n1 n2 = Inr (Q * (n2 / n1)) \<and>
         affinity_laws_head H n1 n2 = Inr (H * (n2 / n1) ^ 2) \<and>
         affinity_laws_power P n1 n2 = Inr (P * (n2 / n1) ^ 3)"
  using assms
  by (simp add: affinity_laws_flow_def affinity_laws_head_def affinity_laws_power_def)

theorem affinity_laws_scaling_witness:
  "affinity_laws_flow (1 / 100) 1750 1450 = Inr (1 / 100 * (1450 / 1750)) \<and>
   affinity_laws_head 30 1750 1450 = Inr (30 * (1450 / 1750) ^ 2) \<and>
   affinity_laws_power 4000 1750 1450 = Inr (4000 * (1450 / 1750) ^ 3)"
proof -
  have h1: "(0::real) < 1750" and h2: "(0::real) < 1450" by simp_all
  show ?thesis
    using affinity_laws_scaling [OF h1 h2, of "1 / 100" 30 4000] by simp
qed

subsection \<open>Pump curve generation\<close>

lemma linspace_samples:
  assumes "0 \<le> N"
  shows "\<exists>qs. linspace 0 b N = Inr qs \<and> length qs = nat N \<and>
              (\<forall>i<nat N. qs ! i = real i * (b / real_of_int (N - 1)))"
  using assms by (simp add: linspace_def)

lemma linspace_Inr_length: "linspace a b N = Inr qs \<Longrightarrow> 0 \<le> N \<and> length qs = nat N"
  by (auto simp add: linspace_def split: if_splits)

lemma generate_pump_curve_Inr:
  assumes "generate_pump_curve self q_bep h_bep power_bep efficiency_bep N = (Inr curve, self')"
  shows "q_bep \<noteq> 0 \<and> linspace 0 ((15 / 10) * q_bep) N = Inr (curve_flow curve) \<and>
         curve_head curve = map (head_sample q_bep h_bep) (curve_flow curve) \<and>
         curve_efficiency curve = map (efficiency_sample q_bep efficiency_bep) (curve_flow curve) \<and>
         curve_power curve = map (\<lambda>(q, h, efficiency). power_sample q h efficiency)
            (zip (curve_flow curve) (zip (curve_head curve) (curve_efficiency curve))) \<and>
         self' = self\<lparr>curve_data := Some curve\<rparr>"
  using assms
  by (auto simp add: generate_pump_curve_def Let_def split: sum.splits if_splits)

lemma generate_pump_curve_total:
  assumes "q_bep \<noteq> 0" and "0 \<le> N"
  shows "\<exists>curve. generate_pump_curve self q_bep h_bep power_bep efficiency_bep N
            = (Inr curve, self\<lparr>curve_data := Some curve\<rparr>)"
proof -
  from linspace_samples [OF assms(2)] obtain qs
    where "linspace 0 ((15 / 10) * q_bep) N = Inr qs" by blast
  with assms(1) show ?thesis
    by (simp add: generate_pump_curve_def Let_def)
qed

lemma generate_pump_curve_raises:
  assumes "generate_pump_curve self q_bep h_bep power_bep efficiency_bep N = (Inl err, self')"
  shows "self' = self \<and>
         (if N < 0 then err = ValueError else q_bep = 0 \<and> err = ZeroDivisionError)"
  using assms
  by (auto simp add: generate_pump_curve_def linspace_def Let_def split: sum.splits if_splits)

lemma head_sample_antimono:
  assumes "0 < q_bep" and "0 < h_bep" and "0 \<le> q1" and "q1 \<le> q2"
  shows "head_sample q_bep h_bep q2 \<le> head_sample q_bep h_bep q1"
proof -
  define a where "a = (h_bep * (115 / 100) - h_bep) / q_bep ^ 2"
  have "0 \<le> a"
    using assms(1,2) by (simp add: a_def)
  moreover have "q1 ^ 2 \<le> q2 ^ 2"
    using assms(3,4) by (simp add: power_mono)
  ultimately have "a * q1 ^ 2 \<le> a * q2 ^ 2"
    by (rule mult_left_mono [rotated])
  moreover have "head_sample q_bep h_bep q = max (h_bep * (115 / 100) - a * q ^ 2) 0" for q
    by (simp only: head_sample_def Let_def a_def)
  ultimately show ?thesis
    by simp
qed

lemma head_sample_nonneg: "0 \<le> head_sample q_bep h_bep q"
  by (simp add: head_sample_def Let_def)

lemma head_sample_shutoff: "0 \<le> h_bep \<Longrightarrow> head_sample q_bep h_bep 0 = (115 / 100) * h_bep"
  by (simp add: head_sample_def Let_def)

lemma head_sample_bep: "q_bep \<noteq> 0 \<Longrightarrow> 0 \<le> h_bep \<Longrightarrow> head_sample q_bep h_bep q_bep = h_bep"
  by (simp add: head_sample_def Let_def)

text \<open>
  Claim C8. For a positive BEP flow, a positive BEP head and a sample count \<open>N \<ge> 0\<close>,
  \<open>generate_pump_curve\<close> returns a curve of \<open>N\<close> flow samples evenly spaced from 0 to 1.5
  times the BEP flow, whose head samples are the parabola floored at zero, evaluated at the
  flow samples; the heads are non-increasing along the (non-decreasing) flows and none is
  negative; the first head, at zero flow, is 1.15 times the BEP head; and the parabola takes
  the BEP head at the BEP flow.
\<close>

theorem pump_curve_head_shape:
  assumes "0 < q_bep" and "0 < h_bep" and "0 \<le> N"
  shows "\<exists>curve self'.
           generate_pump_curve self q_bep h_bep power_bep efficiency_bep N = (Inr curve, self') \<and>
           length (curve_flow curve) = nat N \<and> length (curve_head curve) = nat N \<and>
           (\<forall>i<nat N. curve_flow curve ! i
                         = real i * ((15 / 10) * q_bep / real_of_int (N - 1))) \<and>
           (\<forall>i<nat N. curve_head curve ! i = head_sample q_bep h_bep (curve_flow curve ! i)) \<and>
           (\<forall>j<nat N. \<forall>i\<le>j. curve_flow curve ! i \<le> curve_flow curve ! j \<and>
                                curve_head curve ! j \<le> curve_head curve ! i) \<and>
           (\<forall>i<nat N. 0 \<le> curve_head curve ! i) \<and>
           (0 < N \<longrightarrow> curve_flow curve ! 0 = 0 \<and> curve_head curve ! 0 = (115 / 100) * h_bep) \<and>
           (1 < N \<longrightarrow> curve_flow curve ! (nat N - 1) = (15 / 10) * q_bep) \<and>
           head_sample q_bep h_bep 0 = (115 / 100) * h_bep \<and>
           head_sample q_bep h_bep q_bep = h_bep"
proof -
  from assms(1) have nz: "q_bep \<noteq> 0" by simp
  from generate_pump_curve_total [OF nz assms(3)] obtain curve where
    gen: "generate_pump_curve self q_bep h_bep power_bep efficiency_bep N
            = (Inr curve, self\<lparr>curve_data := Some curve\<rparr>)" by blast
  from generate_pump_curve_Inr [OF gen] have
    lin: "linspace 0 ((15 / 10) * q_bep) N = Inr (curve_flow curve)" and
    hd: "curve_head curve = map (head_sample q_bep h_bep) (curve_flow curve)"
    by blast+
  define s where "s = (15 / 10) * q_bep / real_of_int (N - 1)"
  from linspace_samples [OF assms(3), of "(15 / 10) * q_bep"] lin have
    len: "length (curve_flow curve) = nat N" and
    nth: "\<forall>i<nat N. curve_flow curve ! i = real i * s"
    unfolding s_def by auto
  have hlen: "length (curve_head curve) = nat N"
    using hd len by simp
  have hnth: "\<forall>i<nat N. curve_head curve ! i = head_sample q_bep h_bep (curve_flow curve ! i)"
    using hd len by simp
  have step: "0 \<le> s" if "0 < N"
    unfolding s_def using assms(1) that by simp
  have fnn: "\<forall>i<nat N. 0 \<le> curve_flow curve ! i"
  proof (intro allI impI)
    fix i assume i: "i < nat N"
    then have "0 < N" by simp
    from step [OF this] nth i show "0 \<le> curve_flow curve ! i" by simp
  qed
  have mono: "\<forall>j<nat N. \<forall>i\<le>j. curve_flow curve ! i \<le> curve_flow curve ! j \<and>
                                curve_head curve ! j \<le> curve_head curve ! i"
  proof (intro allI impI)
    fix j i assume j: "j < nat N" and ij: "i \<le> j"
    then have i: "i < nat N" by simp
    from j have "0 < N" by simp
    from step [OF this] ij have "real i * s \<le> real j * s"
      by (simp add: mult_right_mono)
    with nth i j have fl: "curve_flow curve ! i \<le> curve_flow curve ! j" by simp
    from fnn i have "0 \<le> curve_flow curve ! i" by simp
    from head_sample_antimono [OF assms(1,2) this fl] hnth i j
    show "curve_flow curve ! i \<le> curve_flow curve ! j \<and>
          curve_head curve ! j \<le> curve_head curve ! i" using fl by simp
  qed
  have nonneg: "\<forall>i<nat N. 0 \<le> curve_head curve ! i"
    using hnth head_sample_nonneg by simp
  have shut: "head_sample q_bep h_bep 0 = (115 / 100) * h_bep"
    using assms(2) by (simp add: head_sample_shutoff)
  have first: "0 < N \<longrightarrow> curve_flow curve ! 0 = 0 \<and> curve_head curve ! 0 = (115 / 100) * h_bep"
  proof
    assume "0 < N"
    then have z: "0 < nat N" by simp
    with nth have "curve_flow curve ! 0 = 0" by simp
    with hnth z shut show "curve_flow curve ! 0 = 0 \<and> curve_head curve ! 0 = (115 / 100) * h_bep"
      by simp
  qed
  have lst: "1 < N \<longrightarrow> curve_flow curve ! (nat N - 1) = (15 / 10) * q_bep"
  proof
    assume n: "1 < N"
    then have "nat N - 1 < nat N" by simp
    with nth have "curve_flow curve ! (nat N - 1) = real (nat N - 1) * s" by simp
    also have "real (nat N - 1) = real_of_int (N - 1)"
      using n by simp
    also have "real_of_int (N - 1) * s = (15 / 10) * q_bep"
    proof -
      have cancel: "c * (x / c) = x" if "c \<noteq> 0" for c x :: real
        using that by simp
      from n have "real_of_int (N - 1) \<noteq> 0" by simp
      then show ?thesis unfolding s_def by (rule cancel)
    qed
    finally show "curve_flow curve ! (nat N - 1) = (15 / 10) * q_bep" .
  qed
  have bep: "head_sample q_bep h_bep q_bep = h_bep"
    using nz assms(2) by (simp add: head_sample_bep)
  from gen len hlen nth [unfolded s_def] hnth mono nonneg first lst shut bep show ?thesis
    by blast
qed

theorem pump_curve_head_shape_witness:
  "\<exists>curve self'.
     generate_pump_curve new_pump_calculator (1 / 100) 30 4000 (8 / 10) 3 = (Inr curve, self') \<and>
     curve_flow curve = [0, 3 / 400, 3 / 200] \<and>
     curve_head curve = [69 / 2, 1023 / 32, 195 / 8] \<and>
     curve_head curve ! 2 \<le> curve_head curve ! 1 \<and>
     curve_head curve ! 1 \<le> curve_head curve ! 0 \<and>
     0 \<le> curve_head curve ! 2 \<and>
     head_sample (1 / 100) 30 (1 / 100) = 30"
proof -
  have pos: "(0::real) < 1 / 100" "(0::real) < 30" "(0::int) \<le> 3" by simp_all
  from pump_curve_head_shape [OF pos, of new_pump_calculator 4000 "8 / 10"]
  obtain curve self' where
    gen: "generate_pump_curve new_pump_calculator (1 / 100) 30 4000 (8 / 10) 3 = (Inr curve, self')"
    and len: "length (curve_flow curve) = nat 3" "length (curve_head curve) = nat 3"
    and fl: "\<forall>i<nat 3. curve_flow curve ! i = real i * ((15 / 10) * (1 / 100) / real_of_int (3 - 1))"
    and hd: "\<forall>i<nat 3. curve_head curve ! i = head_sample (1 / 100) 30 (curve_flow curve ! i)"
    and mono: "\<forall>j<nat 3. \<forall>i\<le>j. curve_flow curve ! i \<le> curve_flow curve ! j \<and>
                                curve_head curve ! j \<le> curve_head curve ! i"
    and nonneg: "\<forall>i<nat 3. 0 \<le> curve_head curve ! i"
    and bep: "head_sample (1 / 100) 30 (1 / 100) = 30"
    by blast
  have three: "xs = [xs ! 0, xs ! 1, xs ! 2]" if "length xs = nat 3" for xs :: "real list"
    using that by (auto simp add: list_eq_iff_nth_eq less_Suc_eq numeral_3_eq_3 numeral_2_eq_2)
  have step: "(15 / 10) * (1 / 100) / real_of_int (3 - 1) = 3 / 400"
    by simp
  have f0: "curve_flow curve ! 0 = 0"
    using fl [rule_format, of 0] by simp
  have "curve_flow curve ! 1 = real 1 * (3 / 400)"
    unfolding step [symmetric] by (rule fl [rule_format]) simp
  then have f1: "curve_flow curve ! 1 = 3 / 400"
    by (simp only: of_nat_1 mult_1)
  have "curve_flow curve ! 2 = real 2 * (3 / 400)"
    unfolding step [symmetric] by (rule fl [rule_format]) simp
  also have "\<dots> = 3 / 200" by simp
  finally have f2: "curve_flow curve ! 2 = 3 / 200" .
  have flow: "curve_flow curve = [0, 3 / 400, 3 / 200]"
    by (subst three [OF len(1)]) (simp only: f0 f1 f2)
  have hs: "head_sample (1 / 100) 30 0 = 69 / 2" "head_sample (1 / 100) 30 (3 / 400) = 1023 / 32"
    "head_sample (1 / 100) 30 (3 / 200) = 195 / 8"
    by (simp_all add: head_sample_def Let_def power2_eq_square)
  have "curve_head curve ! 0 = head_sample (1 / 100) 30 (curve_flow curve ! 0)"
    by (rule hd [rule_format]) simp
  then have h0: "curve_head curve ! 0 = 69 / 2"
    by (simp only: f0 hs)
  have "curve_head curve ! 1 = head_sample (1 / 100) 30 (curve_flow curve ! 1)"
    by (rule hd [rule_format]) simp
  then have h1: "curve_head curve ! 1 = 1023 / 32"
    by (simp only: f1 hs)
  have "curve_head curve ! 2 = head_sample (1 / 100) 30 (curve_flow curve ! 2)"
    by (rule hd [rule_format]) simp
  then have h2: "curve_head curve ! 2 = 195 / 8"
    by (simp only: f2 hs)
  have head: "curve_head curve = [69 / 2, 1023 / 32, 195 / 8]"
    by (subst three [OF len(2)]) (simp only: h0 h1 h2)
  from mono [rule_format, of 2 1] mono [rule_format, of 1 0]
  have "curve_head curve ! 2 \<le> curve_head curve ! 1"
    "curve_head curve ! 1 \<le> curve_head curve ! 0"
    by simp_all
  moreover from nonneg [rule_format, of 2] have "0 \<le> curve_head curve ! 2" by simp
  ultimately show ?thesis
    using gen flow head bep by blast
qed

subsection \<open>The curve kept in the calculator object\<close>

lemma operating_point_Inr:
  assumes "operating_point self sys params = (Inr r, self')"
  shows "\<exists>curve idx.
           generate_pump_curve self (pcp_q_bep params) (pcp_h_bep params) (pcp_power_bep params)
             (case pcp_efficiency_bep params of None \<Rightarrow> default_efficiency_bep | Some e \<Rightarrow> e)
             (case pcp_num_points params of None \<Rightarrow> default_num_points | Some n \<Rightarrow> n)
             = (Inr curve, self') \<and>
           argmin (map (\<lambda>(hp, hs). \<bar>hp - hs\<bar>)
                     (zip (curve_head curve)
                        (map (\<lambda>q. h_static sys + k_coefficient sys * q ^ 2) (curve_flow curve))))
             = Inr idx \<and>
           op_flow_operating r = curve_flow curve ! idx \<and>
           op_head_operating r = curve_head curve ! idx \<and>
           op_power_operating r = curve_power curve ! idx \<and>
           op_efficiency_operating r = curve_efficiency curve ! idx \<and>
           op_flow_range r = curve_flow curve \<and> op_pump_curve r = curve_head curve \<and>
           op_system_curve r
             = map (\<lambda>q. h_static sys + k_coefficient sys * q ^ 2) (curve_flow curve)"
  using assms
  by (auto simp add: operating_point_def Let_def split: sum.splits prod.splits)

lemma diff_nth:
  assumes "length hs = length qs" and "j < length qs"
  shows "map (\<lambda>(hp, hs). \<bar>hp - hs\<bar>) (zip hs (map (\<lambda>q. c + k * q ^ 2) qs)) ! j
           = \<bar>hs ! j - (c + k * (qs ! j) ^ 2)\<bar>"
  using assms by simp

text \<open>
  Claim C2, as amended. \<open>generate_pump_curve\<close> stores the curve it computed in the field
  \<open>curve_data\<close> of the object, replacing what was there, and returns that same curve;
  \<open>operating_point\<close>, which calls it, leaves the curve it used in the field as well. Neither
  touches \<open>efficiency_data\<close>. Neither reads the field: called on any other state of the
  object with the same arguments, each returns the same value.
\<close>

theorem curve_retained_in_field:
  "(\<forall>curve self'.
      generate_pump_curve self q_bep h_bep power_bep efficiency_bep N = (Inr curve, self') \<longrightarrow>
        curve_data self' = Some curve \<and> efficiency_data self' = efficiency_data self \<and>
        (\<forall>other. generate_pump_curve other q_bep h_bep power_bep efficiency_bep N
                    = (Inr curve, other\<lparr>curve_data := Some curve\<rparr>))) \<and>
   (\<forall>r self'.
      operating_point self sys params = (Inr r, self') \<longrightarrow>
        efficiency_data self' = efficiency_data self \<and>
        (\<exists>curve. curve_data self' = Some curve \<and> curve_flow curve = op_flow_range r \<and>
                  curve_head curve = op_pump_curve r) \<and>
        (\<forall>other. \<exists>other'. operating_point other sys params = (Inr r, other')))"
proof (intro conjI allI impI)
  fix curve self'
  assume gen: "generate_pump_curve self q_bep h_bep power_bep efficiency_bep N = (Inr curve, self')"
  from generate_pump_curve_Inr [OF gen] show "curve_data self' = Some curve"
    and "efficiency_data self' = efficiency_data self"
    by simp_all
  fix other
  from gen show "generate_pump_curve other q_bep h_bep power_bep efficiency_bep N
                    = (Inr curve, other\<lparr>curve_data := Some curve\<rparr>)"
    by (auto simp add: generate_pump_curve_def Let_def split: sum.splits if_splits)
next
  fix r self'
  assume op: "operating_point self sys params = (Inr r, self')"
  from operating_point_Inr [OF op] obtain curve idx where
    gen: "generate_pump_curve self (pcp_q_bep params) (pcp_h_bep params) (pcp_power_bep params)
             (case pcp_efficiency_bep params of None \<Rightarrow> default_efficiency_bep | Some e \<Rightarrow> e)
             (case pcp_num_points params of None \<Rightarrow> default_num_points | Some n \<Rightarrow> n)
             = (Inr curve, self')"
    and r: "op_flow_range r = curve_flow curve" "op_pump_curve r = curve_head curve"
    by blast
  from generate_pump_curve_Inr [OF gen] show "efficiency_data self' = efficiency_data self"
    by simp
  from generate_pump_curve_Inr [OF gen] r
  show "\<exists>curve. curve_data self' = Some curve \<and> curve_flow curve = op_flow_range r \<and>
                  curve_head curve = op_pump_curve r"
    by simp
  fix other
  from op show "\<exists>other'. operating_point other sys params = (Inr r, other')"
    by (auto simp add: operating_point_def generate_pump_curve_def Let_def
             split: sum.splits if_splits)
qed

theorem curve_retained_in_field_witness:
  "\<exists>curve self'.
     generate_pump_curve new_pump_calculator (1 / 100) 30 4000 (8 / 10) 3 = (Inr curve, self') \<and>
     curve_data self' = Some curve \<and> efficiency_data self' = None \<and>
     generate_pump_curve self' (1 / 100) 30 4000 (8 / 10) 3 = (Inr curve, self')"
proof -
  from generate_pump_curve_total [of "1 / 100" 3 new_pump_calculator 30 4000 "8 / 10"]
  obtain curve self' where
    gen: "generate_pump_curve new_pump_calculator (1 / 100) 30 4000 (8 / 10) 3 = (Inr curve, self')"
    by auto
  from curve_retained_in_field [of new_pump_calculator "1 / 100" 30 4000 "8 / 10" 3] gen
  have kept: "curve_data self' = Some curve"
    and eff: "efficiency_data self' = efficiency_data new_pump_calculator"
    and other: "\<forall>other. generate_pump_curve other (1 / 100) 30 4000 (8 / 10) 3
                    = (Inr curve, other\<lparr>curve_data := Some curve\<rparr>)"
    by blast+
  from other have "generate_pump_curve self' (1 / 100) 30 4000 (8 / 10) 3
                    = (Inr curve, self'\<lparr>curve_data := Some curve\<rparr>)" by blast
  moreover from kept have "self'\<lparr>curve_data := Some curve\<rparr> = self'" by simp
  ultimately have again: "generate_pump_curve self' (1 / 100) 30 4000 (8 / 10) 3 = (Inr curve, self')"
    by simp
  from eff have "efficiency_data self' = None"
    by (simp add: new_pump_calculator_def)
  with gen kept again show ?thesis by blast
qed

text \<open>
  The claim as first stated fails: on a fresh object, whose field is empty, the call returns
  a curve and leaves that curve in the field.
\<close>

theorem curve_not_retained_counterexample:
  "curve_data new_pump_calculator = None \<and>
   generate_pump_curve new_pump_calculator (1 / 100) 30 4000 (8 / 10) 3
     = (Inr (the (curve_data
                    (snd (generate_pump_curve new_pump_calculator (1 / 100) 30 4000 (8 / 10) 3)))),
        snd (generate_pump_curve new_pump_calculator (1 / 100) 30 4000 (8 / 10) 3)) \<and>
   curve_data (snd (generate_pump_curve new_pump_calculator (1 / 100) 30 4000 (8 / 10) 3)) \<noteq> None"
  by (simp add: generate_pump_curve_def linspace_def new_pump_calculator_def Let_def)

subsection \<open>Operating point\<close>

lemma argmin_scan_first_min:
  assumes "length ys = i" and "best_i < i" and "ys ! best_i = best"
    and "\<forall>j<i. best \<le> ys ! j" and "\<forall>j<best_i. best < ys ! j"
  shows "argmin_scan xs i best_i best < length (ys @ xs) \<and>
         (\<forall>j<length (ys @ xs). (ys @ xs) ! argmin_scan xs i best_i best \<le> (ys @ xs) ! j) \<and>
         (\<forall>j<argmin_scan xs i best_i best. (ys @ xs) ! argmin_scan xs i best_i best < (ys @ xs) ! j)"
  using assms
proof (induction xs arbitrary: ys i best_i best)
  case Nil
  then show ?case by simp
next
  case (Cons x xs)
  have app: "ys @ x # xs = (ys @ [x]) @ xs" by simp
  show ?case
  proof (cases "x < best")
    case True
    have "argmin_scan xs (Suc i) i x < length ((ys @ [x]) @ xs) \<and>
         (\<forall>j<length ((ys @ [x]) @ xs). ((ys @ [x]) @ xs) ! argmin_scan xs (Suc i) i x \<le> ((ys @ [x]) @ xs) ! j) \<and>
         (\<forall>j<argmin_scan xs (Suc i) i x. ((ys @ [x]) @ xs) ! argmin_scan xs (Suc i) i x < ((ys @ [x]) @ xs) ! j)"
    proof (rule Cons.IH)
      show "length (ys @ [x]) = Suc i" using Cons.prems(1) by simp
      show "i < Suc i" by simp
      show "(ys @ [x]) ! i = x" using Cons.prems(1) by (simp add: nth_append)
      show "\<forall>j<Suc i. x \<le> (ys @ [x]) ! j"
        using Cons.prems(1,4) True by (auto simp add: nth_append less_Suc_eq)
      show "\<forall>j<i. x < (ys @ [x]) ! j"
        using Cons.prems(1,4) True by (auto simp add: nth_append)
    qed
    with True show ?thesis unfolding app by simp
  next
    case False
    have "argmin_scan xs (Suc i) best_i best < length ((ys @ [x]) @ xs) \<and>
         (\<forall>j<length ((ys @ [x]) @ xs). ((ys @ [x]) @ xs) ! argmin_scan xs (Suc i) best_i best \<le> ((ys @ [x]) @ xs) ! j) \<and>
         (\<forall>j<argmin_scan xs (Suc i) best_i best. ((ys @ [x]) @ xs) ! argmin_scan xs (Suc i) best_i best < ((ys @ [x]) @ xs) ! j)"
    proof (rule Cons.IH)
      show "length (ys @ [x]) = Suc i" using Cons.prems(1) by simp
      show "best_i < Suc i" using Cons.prems(2) by simp
      show "(ys @ [x]) ! best_i = best" using Cons.prems(1,2,3) by (simp add: nth_append)
      show "\<forall>j<Suc i. best \<le> (ys @ [x]) ! j"
        using Cons.prems(1,4) False by (auto simp add: nth_append less_Suc_eq)
      show "\<forall>j<best_i. best < (ys @ [x]) ! j"
        using Cons.prems(1,2,5) by (auto simp add: nth_append)
    qed
    with False show ?thesis unfolding app by simp
  qed
qed

lemma argmin_first_min:
  assumes "argmin xs = Inr idx"
  shows "idx < length xs \<and> (\<forall>j<length xs. xs ! idx \<le> xs ! j) \<and> (\<forall>j<idx. xs ! idx < xs ! j)"
proof (cases xs)
  case Nil
  with assms show ?thesis by (simp add: argmin_def)
next
  case (Cons x rest)
  with assms have idx: "idx = argmin_scan rest 1 0 x"
    by (simp add: argmin_def)
  have "argmin_scan rest 1 0 x < length ([x] @ rest) \<and>
         (\<forall>j<length ([x] @ rest). ([x] @ rest) ! argmin_scan rest 1 0 x \<le> ([x] @ rest) ! j) \<and>
         (\<forall>j<argmin_scan rest 1 0 x. ([x] @ rest) ! argmin_scan rest 1 0 x < ([x] @ rest) ! j)"
    by (rule argmin_scan_first_min) simp_all
  with idx Cons show ?thesis by simp
qed

text \<open>The call returns for every non-zero BEP flow and at least one sample.\<close>

lemma operating_point_returns:
  assumes "pcp_q_bep params \<noteq> 0"
    and "1 \<le> (case pcp_num_points params of None \<Rightarrow> default_num_points | Some n \<Rightarrow> n)"
  shows "\<exists>r self'. operating_point self sys params = (Inr r, self')"
proof -
  define N where "N = (case pcp_num_points params of None \<Rightarrow> default_num_points | Some n \<Rightarrow> n)"
  define eff where
    "eff = (case pcp_efficiency_bep params of None \<Rightarrow> default_efficiency_bep | Some e \<Rightarrow> e)"
  from assms(2) have N: "0 \<le> N" "0 < nat N" by (simp_all add: N_def)
  from generate_pump_curve_total [OF assms(1) N(1)] obtain curve where
    gen: "generate_pump_curve self (pcp_q_bep params) (pcp_h_bep params) (pcp_power_bep params)
            eff N = (Inr curve, self\<lparr>curve_data := Some curve\<rparr>)"
    by blast
  from generate_pump_curve_Inr [OF gen] linspace_Inr_length N have
    len: "length (curve_flow curve) = nat N" "length (curve_head curve) = nat N"
    by auto
  define diff where "diff = map (\<lambda>(hp, hs). \<bar>hp - hs\<bar>)
     (zip (curve_head curve)
        (map (\<lambda>q. h_static sys + k_coefficient sys * q ^ 2) (curve_flow curve)))"
  from len N(2) have "diff \<noteq> []"
    by (auto simp add: diff_def)
  then obtain idx where "argmin diff = Inr idx"
    by (cases diff) (simp_all add: argmin_def)
  with gen show ?thesis
    unfolding operating_point_def N_def [symmetric] eff_def [symmetric]
    by (simp add: Let_def diff_def [symmetric])
qed

lemma first_minimum_of_generated_curve:
  assumes "operating_point self sys params = (Inr r, self')"
  shows "\<exists>curve idx.
           generate_pump_curve self (pcp_q_bep params) (pcp_h_bep params) (pcp_power_bep params)
             (case pcp_efficiency_bep params of None \<Rightarrow> default_efficiency_bep | Some e \<Rightarrow> e)
             (case pcp_num_points params of None \<Rightarrow> default_num_points | Some n \<Rightarrow> n)
             = (Inr curve, self') \<and>
           length (curve_head curve) = length (curve_flow curve) \<and>
           length (curve_power curve) = length (curve_flow curve) \<and>
           length (curve_efficiency curve) = length (curve_flow curve) \<and>
           idx < length (curve_flow curve) \<and>
           (\<forall>j<length (curve_flow curve). head_gap sys curve idx \<le> head_gap sys curve j) \<and>
           (\<forall>j<idx. head_gap sys curve idx < head_gap sys curve j) \<and>
           (0 < pcp_q_bep params \<longrightarrow>
              (\<forall>j<length (curve_flow curve). head_gap sys curve j = head_gap sys curve idx \<longrightarrow>
                 curve_flow curve ! idx \<le> curve_flow curve ! j)) \<and>
           op_flow_operating r = curve_flow curve ! idx \<and>
           op_head_operating r = curve_head curve ! idx \<and>
           op_power_operating r = curve_power curve ! idx \<and>
           op_efficiency_operating r = curve_efficiency curve ! idx \<and>
           op_flow_range r = curve_flow curve \<and> op_pump_curve r = curve_head curve \<and>
           op_system_curve r
             = map (\<lambda>q. h_static sys + k_coefficient sys * q ^ 2) (curve_flow curve)"
proof -
  define N where "N = (case pcp_num_points params of None \<Rightarrow> default_num_points | Some n \<Rightarrow> n)"
  define eff where "eff = (case pcp_efficiency_bep params of None \<Rightarrow> default_efficiency_bep | Some e \<Rightarrow> e)"
  from operating_point_Inr [OF assms] obtain curve idx where
    gen: "generate_pump_curve self (pcp_q_bep params) (pcp_h_bep params) (pcp_power_bep params)
             eff N = (Inr curve, self')"
    and am: "argmin (map (\<lambda>(hp, hs). \<bar>hp - hs\<bar>)
                     (zip (curve_head curve)
                        (map (\<lambda>q. h_static sys + k_coefficient sys * q ^ 2) (curve_flow curve))))
             = Inr idx"
    and r: "op_flow_operating r = curve_flow curve ! idx"
           "op_head_operating r = curve_head curve ! idx"
           "op_power_operating r = curve_power curve ! idx"
           "op_efficiency_operating r = curve_efficiency curve ! idx"
           "op_flow_range r = curve_flow curve" "op_pump_curve r = curve_head curve"
           "op_system_curve r
              = map (\<lambda>q. h_static sys + k_coefficient sys * q ^ 2) (curve_flow curve)"
    unfolding N_def eff_def by blast
  define diff where "diff = map (\<lambda>(hp, hs). \<bar>hp - hs\<bar>)
                     (zip (curve_head curve)
                        (map (\<lambda>q. h_static sys + k_coefficient sys * q ^ 2) (curve_flow curve)))"
  note g = generate_pump_curve_Inr [OF gen]
  from g have lh: "length (curve_head curve) = length (curve_flow curve)" by simp
  from g have le: "length (curve_efficiency curve) = length (curve_flow curve)" by simp
  from g lh le have lp: "length (curve_power curve) = length (curve_flow curve)"
    by simp
  have ld: "length diff = length (curve_flow curve)"
    using lh by (simp add: diff_def)
  have dn: "diff ! j = head_gap sys curve j" if "j < length (curve_flow curve)" for j
    unfolding diff_def head_gap_def using lh that by (rule diff_nth)
  from argmin_first_min [OF am [folded diff_def]] have
    i1: "idx < length diff" and i2: "\<forall>j<length diff. diff ! idx \<le> diff ! j"
    and i3: "\<forall>j<idx. diff ! idx < diff ! j" by blast+
  from i1 ld have idx: "idx < length (curve_flow curve)" by simp
  from i2 ld dn idx have m1: "\<forall>j<length (curve_flow curve). head_gap sys curve idx \<le> head_gap sys curve j"
    by simp
  from i3 dn idx have m2: "\<forall>j<idx. head_gap sys curve idx < head_gap sys curve j"
    by simp
  have m3: "0 < pcp_q_bep params \<longrightarrow>
              (\<forall>j<length (curve_flow curve). head_gap sys curve j = head_gap sys curve idx \<longrightarrow>
                 curve_flow curve ! idx \<le> curve_flow curve ! j)"
  proof (intro impI allI)
    fix j
    assume pos: "0 < pcp_q_bep params" and j: "j < length (curve_flow curve)"
      and tie: "head_gap sys curve j = head_gap sys curve idx"
    from m2 tie have ij: "idx \<le> j"
      by (metis less_irrefl not_le)
    from g have lin: "linspace 0 ((15 / 10) * pcp_q_bep params) N = Inr (curve_flow curve)"
      by simp
    from linspace_Inr_length [OF lin] have N: "0 \<le> N" "length (curve_flow curve) = nat N"
      by simp_all
    define s where "s = (15 / 10) * pcp_q_bep params / real_of_int (N - 1)"
    from linspace_samples [OF N(1), of "(15 / 10) * pcp_q_bep params"] lin
    have nth: "\<forall>i<nat N. curve_flow curve ! i = real i * s"
      unfolding s_def by auto
    from j N have "0 < N" by simp
    then have "0 \<le> s" unfolding s_def using pos by simp
    with ij have "real idx * s \<le> real j * s"
      by (simp add: mult_right_mono)
    with nth idx j N(2) show "curve_flow curve ! idx \<le> curve_flow curve ! j"
      by simp
  qed
  from gen [unfolded N_def eff_def] lh lp le idx m1 m2 m3 r show ?thesis
    by blast
qed

lemma operating_point_returns_on_samples:
  assumes "generate_pump_curve self (pcp_q_bep params) (pcp_h_bep params) (pcp_power_bep params)
             (case pcp_efficiency_bep params of None \<Rightarrow> default_efficiency_bep | Some e \<Rightarrow> e)
             (case pcp_num_points params of None \<Rightarrow> default_num_points | Some n \<Rightarrow> n)
             = (Inr curve, self')"
    and "curve_flow curve \<noteq> []"
  shows "\<exists>r. operating_point self sys params = (Inr r, self')"
proof -
  define diff where "diff = map (\<lambda>(hp, hs). \<bar>hp - hs\<bar>)
     (zip (curve_head curve)
        (map (\<lambda>q. h_static sys + k_coefficient sys * q ^ 2) (curve_flow curve)))"
  from generate_pump_curve_Inr [OF assms(1)] have
    "length (curve_head curve) = length (curve_flow curve)" by simp
  with assms(2) have "diff \<noteq> []"
    by (auto simp add: diff_def)
  then obtain idx where "argmin diff = Inr idx"
    by (cases diff) (simp_all add: argmin_def)
  with assms(1) show ?thesis
    unfolding operating_point_def
    by (simp add: Let_def diff_def [symmetric])
qed

text \<open>
  Claim C10. \<open>operating_point\<close> returns exactly when the curve that \<open>generate_pump_curve\<close>
  makes of the parameters has a sample. When it returns, there is one sample index \<open>idx\<close>
  of that generated curve at which the difference between pump head and the system head
  \<open>h_static + k * Q\<^sup>2\<close> is minimal, every earlier sample has a strictly larger difference (so
  among tied minimizers the smallest index is taken, which for a positive BEP flow is the
  smallest flow), and the flow, head, power and efficiency of the result are the entries of
  the four arrays of the generated curve at that same \<open>idx\<close>.
\<close>

theorem operating_point_first_minimum:
  "(\<forall>r self'.
      operating_point self sys params = (Inr r, self') \<longrightarrow>
        (\<exists>curve idx.
           generate_pump_curve self (pcp_q_bep params) (pcp_h_bep params) (pcp_power_bep params)
             (case pcp_efficiency_bep params of None \<Rightarrow> default_efficiency_bep | Some e \<Rightarrow> e)
             (case pcp_num_points params of None \<Rightarrow> default_num_points | Some n \<Rightarrow> n)
             = (Inr curve, self') \<and>
           length (curve_head curve) = length (curve_flow curve) \<and>
           length (curve_power curve) = length (curve_flow curve) \<and>
           length (curve_efficiency curve) = length (curve_flow curve) \<and>
           idx < length (curve_flow curve) \<and>
           (\<forall>j<length (curve_flow curve). head_gap sys curve idx \<le> head_gap sys curve j) \<and>
           (\<forall>j<idx. head_gap sys curve idx < head_gap sys curve j) \<and>
           (0 < pcp_q_bep params \<longrightarrow>
              (\<forall>j<length (curve_flow curve). head_gap sys curve j = head_gap sys curve idx \<longrightarrow>
                 curve_flow curve ! idx \<le> curve_flow curve ! j)) \<and>
           op_flow_operating r = curve_flow curve ! idx \<and>
           op_head_operating r = curve_head curve ! idx \<and>
           op_power_operating r = curve_power curve ! idx \<and>
           op_efficiency_operating r = curve_efficiency curve ! idx \<and>
           op_flow_range r = curve_flow curve \<and> op_pump_curve r = curve_head curve \<and>
           op_system_curve r
             = map (\<lambda>q. h_static sys + k_coefficient sys * q ^ 2) (curve_flow curve))) \<and>
   (\<forall>curve self'.
      generate_pump_curve self (pcp_q_bep params) (pcp_h_bep params) (pcp_power_bep params)
        (case pcp_efficiency_bep params of None \<Rightarrow> default_efficiency_bep | Some e \<Rightarrow> e)
        (case pcp_num_points params of None \<Rightarrow> default_num_points | Some n \<Rightarrow> n)
        = (Inr curve, self') \<and> curve_flow curve \<noteq> [] \<longrightarrow>
        (\<exists>r. operating_point self sys params = (Inr r, self')))"
  using first_minimum_of_generated_curve operating_point_returns_on_samples
  by blast

lemma upt_3: "[0..<3] = [0, 1, 2::nat]"
  by code_simp

lemma tie_linspace: "linspace 0 (15 / 10 * 1) 3 = Inr [0, 3 / 4, 3 / 2]"
  by (simp add: linspace_def upt_3)

lemma tie_heads: "map (head_sample 1 1) [0, 3 / 4, 3 / 2] = [23 / 20, 341 / 320, 13 / 16]"
  by (simp add: head_sample_def Let_def power2_eq_square)

lemma tie_curve:
  "\<exists>curve. generate_pump_curve new_pump_calculator 1 1 5000 (4 / 5) 3
              = (Inr curve, new_pump_calculator\<lparr>curve_data := Some curve\<rparr>) \<and>
     curve_flow curve = [0, 3 / 4, 3 / 2] \<and> curve_head curve = [23 / 20, 341 / 320, 13 / 16]"
  unfolding generate_pump_curve_def tie_linspace
  by (simp add: Let_def tie_heads del: list.map)

lemma tie_generated:
  "generate_pump_curve self (pcp_q_bep tie_pump) (pcp_h_bep tie_pump) (pcp_power_bep tie_pump)
     (case pcp_efficiency_bep tie_pump of None \<Rightarrow> default_efficiency_bep | Some e \<Rightarrow> e)
     (case pcp_num_points tie_pump of None \<Rightarrow> default_num_points | Some n \<Rightarrow> n)
   = generate_pump_curve self 1 1 5000 (4 / 5) 3"
  by (simp add: tie_pump_def)

theorem operating_point_first_minimum_witness:
  "(\<exists>r self'. operating_point new_pump_calculator tie_system tie_pump = (Inr r, self') \<and>
       op_flow_operating r = 0 \<and> op_head_operating r = 23 / 20) \<and>
   (\<exists>r self'. operating_point new_pump_calculator low_system tie_pump = (Inr r, self') \<and>
       op_flow_operating r = 3 / 2 \<and> op_head_operating r = 13 / 16)"
proof -
  from tie_curve obtain curve self' where
    gen: "generate_pump_curve new_pump_calculator 1 1 5000 (4 / 5) 3 = (Inr curve, self')"
    and fl: "curve_flow curve = [0, 3 / 4, 3 / 2]"
    and hd: "curve_head curve = [23 / 20, 341 / 320, 13 / 16]"
    by blast
  have key: "\<exists>r idx. operating_point new_pump_calculator sys tie_pump = (Inr r, self') \<and>
      idx < 3 \<and> (\<forall>j<3. head_gap sys curve idx \<le> head_gap sys curve j) \<and>
      (\<forall>j<idx. head_gap sys curve idx < head_gap sys curve j) \<and>
      op_flow_operating r = curve_flow curve ! idx \<and>
      op_head_operating r = curve_head curve ! idx" for sys
  proof -
    note claim = operating_point_first_minimum [of new_pump_calculator sys tie_pump,
        unfolded tie_generated]
    from fl have "curve_flow curve \<noteq> []" by simp
    with claim gen obtain r where
      op: "operating_point new_pump_calculator sys tie_pump = (Inr r, self')"
      by blast
    with claim obtain curve' idx where
      gen': "generate_pump_curve new_pump_calculator 1 1 5000 (4 / 5) 3 = (Inr curve', self')"
      and idx: "idx < length (curve_flow curve')"
      and least: "\<forall>j<length (curve_flow curve'). head_gap sys curve' idx \<le> head_gap sys curve' j"
      and first: "\<forall>j<idx. head_gap sys curve' idx < head_gap sys curve' j"
      and res: "op_flow_operating r = curve_flow curve' ! idx"
               "op_head_operating r = curve_head curve' ! idx"
      by blast
    from gen gen' have same: "curve' = curve" by simp
    from fl have len: "length (curve_flow curve) = 3" by simp
    from op idx least first res show ?thesis
      unfolding same len by blast
  qed
  have nth3: "idx = 0 \<or> idx = 1 \<or> idx = 2" if "idx < 3" for idx :: nat
    using that by auto
  have tie_gaps: "head_gap tie_system curve 0 = 27 / 640" "head_gap tie_system curve 1 = 27 / 640"
    "head_gap tie_system curve 2 = 189 / 640"
    by (simp_all add: head_gap_def tie_system_def fl hd)
  have low_gaps: "head_gap low_system curve 0 = 27 / 80" "head_gap low_system curve 1 = 81 / 320"
    "head_gap low_system curve 2 = 0"
    by (simp_all add: head_gap_def low_system_def fl hd)
  have tie: "\<exists>r self'. operating_point new_pump_calculator tie_system tie_pump = (Inr r, self') \<and>
       op_flow_operating r = 0 \<and> op_head_operating r = 23 / 20"
  proof -
    from key [of tie_system] obtain r idx where
      op: "operating_point new_pump_calculator tie_system tie_pump = (Inr r, self')"
      and idx: "idx < 3"
      and least: "\<forall>j<3. head_gap tie_system curve idx \<le> head_gap tie_system curve j"
      and first: "\<forall>j<idx. head_gap tie_system curve idx < head_gap tie_system curve j"
      and res: "op_flow_operating r = curve_flow curve ! idx"
               "op_head_operating r = curve_head curve ! idx"
      by blast
    have "idx \<noteq> 1"
    proof
      assume "idx = 1"
      with first [rule_format, of 0] tie_gaps show False by simp
    qed
    moreover have "idx \<noteq> 2"
    proof
      assume "idx = 2"
      with least [rule_format, of 0] tie_gaps show False by simp
    qed
    ultimately have "idx = 0" using nth3 [OF idx] by blast
    with res fl hd have "op_flow_operating r = 0" "op_head_operating r = 23 / 20"
      by simp_all
    with op show ?thesis by blast
  qed
  have low: "\<exists>r self'. operating_point new_pump_calculator low_system tie_pump = (Inr r, self') \<and>
       op_flow_operating r = 3 / 2 \<and> op_head_operating r = 13 / 16"
  proof -
    from key [of low_system] obtain r idx where
      op: "operating_point new_pump_calculator low_system tie_pump = (Inr r, self')"
      and idx: "idx < 3"
      and least: "\<forall>j<3. head_gap low_system curve idx \<le> head_gap low_system curve j"
      and res: "op_flow_operating r = curve_flow curve ! idx"
               "op_head_operating r = curve_head curve ! idx"
      by blast
    have "idx \<noteq> 0"
    proof
      assume "idx = 0"
      with least [rule_format, of 2] low_gaps show False by simp
    qed
    moreover have "idx \<noteq> 1"
    proof
      assume "idx = 1"
      with least [rule_format, of 2] low_gaps show False by simp
    qed
    ultimately have "idx = 2" using nth3 [OF idx] by blast
    with res fl hd have "op_flow_operating r = 3 / 2" "op_head_operating r = 13 / 16"
      by simp_all
    with op show ?thesis by blast
  qed
  from tie low show ?thesis ..
qed

subsection \<open>Pipe-size selection\<close>

lemma sorted_pipe_sizes: "sorted STANDARD_PIPE_SIZES"
  by (simp add: STANDARD_PIPE_SIZES_def)

lemma required_diameter_velocity:
  assumes "0 < Q" and "0 < vmax"
  shows "0 < sqrt (4 * (Q / vmax) / pi) * 1000"
    and "Q / (pi * (sqrt (4 * (Q / vmax) / pi) * 1000 / 1000 / 2) ^ 2) = vmax"
proof -
  have pos: "0 < 4 * (Q / vmax) / pi"
    using assms by simp
  then show "0 < sqrt (4 * (Q / vmax) / pi) * 1000"
    by simp
  have "(sqrt (4 * (Q / vmax) / pi) * 1000 / 1000 / 2) ^ 2 = (sqrt (4 * (Q / vmax) / pi)) ^ 2 / 4"
    by (simp add: power_divide)
  also have "\<dots> = (4 * (Q / vmax) / pi) / 4"
    using pos by simp
  also have "\<dots> = (Q / vmax) / pi"
    by simp
  finally have "pi * (sqrt (4 * (Q / vmax) / pi) * 1000 / 1000 / 2) ^ 2 = Q / vmax"
    by simp
  then show "Q / (pi * (sqrt (4 * (Q / vmax) / pi) * 1000 / 1000 / 2) ^ 2) = vmax"
    using assms by simp
qed

lemma larger_pipe_slower:
  assumes "0 < Q" and "0 < d" and "d \<le> y"
  shows "Q / (pi * (y / 1000 / 2) ^ 2) \<le> Q / (pi * (d / 1000 / 2) ^ 2)"
proof -
  have "(d / 1000 / 2) ^ 2 \<le> (y / 1000 / 2) ^ 2"
    using assms(2,3) by (intro power_mono) simp_all
  then have "pi * (d / 1000 / 2) ^ 2 \<le> pi * (y / 1000 / 2) ^ 2"
    by simp
  moreover have "0 < pi * (d / 1000 / 2) ^ 2"
    using assms(2) by simp
  ultimately show ?thesis
    using assms(1) by (intro frac_le) simp_all
qed

text \<open>
  Claim C9. For a positive flow rate and a positive maximum velocity, with the required
  diameter \<open>d = sqrt (4 * (Q / vmax) / pi) * 1000\<close> millimetres: if some standard size is at
  least \<open>d\<close>, \<open>select_pipe_size\<close> returns the OK record whose recommended size is the first
  entry of the list that is at least \<open>d\<close> (every entry before it is smaller than \<open>d\<close>), hence
  the smallest such size, with the velocity recomputed at that size, which is at most the
  velocity at the required diameter, and that one is the maximum velocity given. If no
  standard size is at least \<open>d\<close>, it returns the ERROR record; it raises in neither case.
\<close>

theorem select_pipe_size_smallest_adequate:
  assumes "0 < Q" and "0 < vmax"
  shows "((\<exists>dn\<in>set STANDARD_PIPE_SIZES. sqrt (4 * (Q / vmax) / pi) * 1000 \<le> real_of_int dn) \<longrightarrow>
           (\<exists>r pre post.
              select_pipe_size Q vmax = Inr (STATUS_OK r) \<and>
              required_diameter_mm r = sqrt (4 * (Q / vmax) / pi) * 1000 \<and>
              STANDARD_PIPE_SIZES = pre @ recommended_dn r # post \<and>
              (\<forall>dn\<in>set pre. real_of_int dn < required_diameter_mm r) \<and>
              required_diameter_mm r \<le> real_of_int (recommended_dn r) \<and>
              (\<forall>dn\<in>set STANDARD_PIPE_SIZES.
                 required_diameter_mm r \<le> real_of_int dn \<longrightarrow> recommended_dn r \<le> dn) \<and>
              actual_velocity r = Q / (pi * (real_of_int (recommended_dn r) / 1000 / 2) ^ 2) \<and>
              actual_velocity r \<le> Q / (pi * (required_diameter_mm r / 1000 / 2) ^ 2) \<and>
              Q / (pi * (required_diameter_mm r / 1000 / 2) ^ 2) = vmax)) \<and>
         (\<not> (\<exists>dn\<in>set STANDARD_PIPE_SIZES. sqrt (4 * (Q / vmax) / pi) * 1000 \<le> real_of_int dn) \<longrightarrow>
           select_pipe_size Q vmax = Inr STATUS_ERROR)"
proof -
  define d where "d = sqrt (4 * (Q / vmax) / pi) * 1000"
  define suit where "suit = filter (\<lambda>dn. real_of_int dn \<ge> d) STANDARD_PIPE_SIZES"
  from assms have nneg: "\<not> 4 * (Q / vmax) / pi < 0"
    by (simp add: not_less)
  from required_diameter_velocity [OF assms] have dpos: "0 < d"
    and vd: "Q / (pi * (d / 1000 / 2) ^ 2) = vmax"
    by (simp_all add: d_def)
  have sel: "select_pipe_size Q vmax =
      (case suit of [] \<Rightarrow> Inr STATUS_ERROR
       | recommended # others \<Rightarrow>
           if pi * (real_of_int recommended / 1000 / 2) ^ 2 = 0 then Inl ZeroDivisionError
           else Inr (STATUS_OK
                    \<lparr>required_diameter_mm = d,
                     recommended_dn = recommended,
                     actual_velocity = Q / (pi * (real_of_int recommended / 1000 / 2) ^ 2),
                     flow_rate_m3h = Q * 3600,
                     next_sizes = (if length suit > 1 then take 3 suit else suit)\<rparr>))"
    using assms(2) nneg
    unfolding select_pipe_size_def suit_def d_def Let_def by simp
  have none: "\<not> (\<exists>dn\<in>set STANDARD_PIPE_SIZES. sqrt (4 * (Q / vmax) / pi) * 1000 \<le> real_of_int dn) \<longrightarrow>
           select_pipe_size Q vmax = Inr STATUS_ERROR"
  proof
    assume "\<not> (\<exists>dn\<in>set STANDARD_PIPE_SIZES. sqrt (4 * (Q / vmax) / pi) * 1000 \<le> real_of_int dn)"
    then have "suit = []"
      by (simp add: suit_def d_def filter_empty_conv)
    with sel show "select_pipe_size Q vmax = Inr STATUS_ERROR" by simp
  qed
  have some: "(\<exists>dn\<in>set STANDARD_PIPE_SIZES. sqrt (4 * (Q / vmax) / pi) * 1000 \<le> real_of_int dn) \<longrightarrow>
           (\<exists>r pre post.
              select_pipe_size Q vmax = Inr (STATUS_OK r) \<and>
              required_diameter_mm r = sqrt (4 * (Q / vmax) / pi) * 1000 \<and>
              STANDARD_PIPE_SIZES = pre @ recommended_dn r # post \<and>
              (\<forall>dn\<in>set pre. real_of_int dn < required_diameter_mm r) \<and>
              required_diameter_mm r \<le> real_of_int (recommended_dn r) \<and>
              (\<forall>dn\<in>set STANDARD_PIPE_SIZES.
                 required_diameter_mm r \<le> real_of_int dn \<longrightarrow> recommended_dn r \<le> dn) \<and>
              actual_velocity r = Q / (pi * (real_of_int (recommended_dn r) / 1000 / 2) ^ 2) \<and>
              actual_velocity r \<le> Q / (pi * (required_diameter_mm r / 1000 / 2) ^ 2) \<and>
              Q / (pi * (required_diameter_mm r / 1000 / 2) ^ 2) = vmax)"
  proof
    assume "\<exists>dn\<in>set STANDARD_PIPE_SIZES. sqrt (4 * (Q / vmax) / pi) * 1000 \<le> real_of_int dn"
    then have "suit \<noteq> []"
      by (simp add: suit_def d_def filter_empty_conv)
    then obtain y others where suit: "suit = y # others"
      by (cases suit) simp_all
    from suit [unfolded suit_def] obtain pre post where
      split: "STANDARD_PIPE_SIZES = pre @ y # post"
      and pre: "\<forall>u\<in>set pre. \<not> d \<le> real_of_int u" and y: "d \<le> real_of_int y"
      unfolding filter_eq_Cons_iff by blast
    from dpos y have ypos: "0 < real_of_int y" by simp
    then have area: "pi * (real_of_int y / 1000 / 2) ^ 2 \<noteq> 0" by simp
    define r where "r = \<lparr>required_diameter_mm = d, recommended_dn = y,
                     actual_velocity = Q / (pi * (real_of_int y / 1000 / 2) ^ 2),
                     flow_rate_m3h = Q * 3600,
                     next_sizes = (if length suit > 1 then take 3 suit else suit)\<rparr>"
    from sel suit area have s: "select_pipe_size Q vmax = Inr (STATUS_OK r)"
      unfolding r_def by simp
    have smallest: "\<forall>dn\<in>set STANDARD_PIPE_SIZES. d \<le> real_of_int dn \<longrightarrow> y \<le> dn"
    proof (intro ballI impI)
      fix dn assume dn: "dn \<in> set STANDARD_PIPE_SIZES" and ok: "d \<le> real_of_int dn"
      from ok pre have "dn \<notin> set pre" by blast
      moreover from split have "set STANDARD_PIPE_SIZES = set (pre @ y # post)" by simp
      ultimately have "dn = y \<or> dn \<in> set post" using dn by auto
      moreover have "sorted (pre @ y # post)"
        using sorted_pipe_sizes unfolding split .
      then have "\<forall>x\<in>set post. y \<le> x"
        by (simp add: sorted_append)
      ultimately show "y \<le> dn" by auto
    qed
    from larger_pipe_slower [OF assms(1) dpos y]
    have slower: "Q / (pi * (real_of_int y / 1000 / 2) ^ 2) \<le> Q / (pi * (d / 1000 / 2) ^ 2)" .
    have f: "required_diameter_mm r = d" "recommended_dn r = y"
      "actual_velocity r = Q / (pi * (real_of_int y / 1000 / 2) ^ 2)"
      by (simp_all add: r_def)
    from pre have pre': "\<forall>dn\<in>set pre. real_of_int dn < d"
      by (simp add: not_le)
    have "select_pipe_size Q vmax = Inr (STATUS_OK r) \<and>
              required_diameter_mm r = d \<and>
              STANDARD_PIPE_SIZES = pre @ recommended_dn r # post \<and>
              (\<forall>dn\<in>set pre. real_of_int dn < required_diameter_mm r) \<and>
              required_diameter_mm r \<le> real_of_int (recommended_dn r) \<and>
              (\<forall>dn\<in>set STANDARD_PIPE_SIZES.
                 required_diameter_mm r \<le> real_of_int dn \<longrightarrow> recommended_dn r \<le> dn) \<and>
              actual_velocity r = Q / (pi * (real_of_int (recommended_dn r) / 1000 / 2) ^ 2) \<and>
              actual_velocity r \<le> Q / (pi * (required_diameter_mm r / 1000 / 2) ^ 2) \<and>
              Q / (pi * (required_diameter_mm r / 1000 / 2) ^ 2) = vmax"
      unfolding f using s split pre' y smallest slower vd by blast
    then show "\<exists>r pre post.
              select_pipe_size Q vmax = Inr (STATUS_OK r) \<and>
              required_diameter_mm r = sqrt (4 * (Q / vmax) / pi) * 1000 \<and>
              STANDARD_PIPE_SIZES = pre @ recommended_dn r # post \<and>
              (\<forall>dn\<in>set pre. real_of_int dn < required_diameter_mm r) \<and>
              required_diameter_mm r \<le> real_of_int (recommended_dn r) \<and>
              (\<forall>dn\<in>set STANDARD_PIPE_SIZES.
                 required_diameter_mm r \<le> real_of_int dn \<longrightarrow> recommended_dn r \<le> dn) \<and>
              actual_velocity r = Q / (pi * (real_of_int (recommended_dn r) / 1000 / 2) ^ 2) \<and>
              actual_velocity r \<le> Q / (pi * (required_diameter_mm r / 1000 / 2) ^ 2) \<and>
              Q / (pi * (required_diameter_mm r / 1000 / 2) ^ 2) = vmax"
      unfolding d_def by blast
  qed
  from some none show ?thesis ..
qed

lemma small_flow_diameter:
  "10 < sqrt (4 * ((2 / 10000) / 2) / pi) * 1000" "sqrt (4 * ((2 / 10000) / 2) / pi) * 1000 \<le> 15"
proof -
  have x: "4 * ((2 / 10000) / 2) / pi = (1 / 2500) / pi" by simp
  have "(1 / 100) ^ 2 < (1 / 2500) / pi"
    using pi_less_4 by (simp add: power2_eq_square field_simps)
  then have "1 / 100 < sqrt ((1 / 2500) / pi)"
    by (rule real_less_rsqrt)
  then show "10 < sqrt (4 * ((2 / 10000) / 2) / pi) * 1000"
    unfolding x by simp
  have "(1 / 2500) / pi \<le> (15 / 1000) ^ 2"
    using pi_ge_two by (simp add: power2_eq_square field_simps)
  then have "sqrt ((1 / 2500) / pi) \<le> 15 / 1000"
    by (intro real_le_lsqrt) simp_all
  then show "sqrt (4 * ((2 / 10000) / 2) / pi) * 1000 \<le> 15"
    unfolding x by simp
qed

lemma large_flow_diameter: "1200 < sqrt (4 * (10 / 1) / pi) * 1000"
proof -
  have x: "4 * (10 / 1) / pi = 40 / pi" by simp
  have "(12 / 10) ^ 2 < 40 / pi"
    using pi_less_4 by (simp add: power2_eq_square field_simps)
  then have "12 / 10 < sqrt (40 / pi)"
    by (rule real_less_rsqrt)
  then show ?thesis
    unfolding x by simp
qed

theorem select_pipe_size_smallest_adequate_witness:
  "(\<exists>r. select_pipe_size (2 / 10000) 2 = Inr (STATUS_OK r) \<and> recommended_dn r = 15 \<and>
        actual_velocity r \<le> 2) \<and>
   select_pipe_size 10 1 = Inr STATUS_ERROR"
proof -
  have pos: "(0::real) < 2 / 10000" "(0::real) < 2" by simp_all
  define d where "d = sqrt (4 * ((2 / 10000) / 2) / pi) * 1000"
  from small_flow_diameter have d: "10 < d" "d \<le> 15"
    by (simp_all add: d_def)
  have "15 \<in> set STANDARD_PIPE_SIZES"
    by (simp add: STANDARD_PIPE_SIZES_def)
  with d(2) have ex: "\<exists>dn\<in>set STANDARD_PIPE_SIZES. d \<le> real_of_int dn"
    by (intro bexI [of _ 15]) simp_all
  from select_pipe_size_smallest_adequate [OF pos] ex [unfolded d_def]
  obtain r pre post where
    sel: "select_pipe_size (2 / 10000) 2 = Inr (STATUS_OK r)"
    and req: "required_diameter_mm r = d"
    and split: "STANDARD_PIPE_SIZES = pre @ recommended_dn r # post"
    and ge: "required_diameter_mm r \<le> real_of_int (recommended_dn r)"
    and least: "\<forall>dn\<in>set STANDARD_PIPE_SIZES.
                 required_diameter_mm r \<le> real_of_int dn \<longrightarrow> recommended_dn r \<le> dn"
    and vel: "actual_velocity r \<le> 2 / 10000 / (pi * (required_diameter_mm r / 1000 / 2) ^ 2)"
    and vmax: "2 / 10000 / (pi * (required_diameter_mm r / 1000 / 2) ^ 2) = 2"
    unfolding d_def by blast
  from least \<open>15 \<in> set STANDARD_PIPE_SIZES\<close> d(2) req have up: "recommended_dn r \<le> 15"
    by auto
  from ge req d(1) have "10 < real_of_int (recommended_dn r)" by simp
  then have low: "10 < recommended_dn r" by linarith
  have "set STANDARD_PIPE_SIZES = set (pre @ recommended_dn r # post)"
    using split by simp
  then have "recommended_dn r \<in> set STANDARD_PIPE_SIZES" by simp
  with up low have "recommended_dn r = 15"
    by (auto simp add: STANDARD_PIPE_SIZES_def)
  moreover from vel vmax have "actual_velocity r \<le> 2" by simp
  ultimately have ok: "\<exists>r. select_pipe_size (2 / 10000) 2 = Inr (STATUS_OK r) \<and>
        recommended_dn r = 15 \<and> actual_velocity r \<le> 2"
    using sel by blast
  have pos2: "(0::real) < 10" "(0::real) < 1" by simp_all
  have "\<not> (\<exists>dn\<in>set STANDARD_PIPE_SIZES. sqrt (4 * (10 / 1) / pi) * 1000 \<le> real_of_int dn)"
  proof
    assume "\<exists>dn\<in>set STANDARD_PIPE_SIZES. sqrt (4 * (10 / 1) / pi) * 1000 \<le> real_of_int dn"
    then obtain dn where dn: "dn \<in> set STANDARD_PIPE_SIZES"
      and big: "sqrt (4 * (10 / 1) / pi) * 1000 \<le> real_of_int dn" by blast
    from dn have "dn \<le> 1200"
      by (auto simp add: STANDARD_PIPE_SIZES_def)
    then have "real_of_int dn \<le> 1200" by simp
    with big large_flow_diameter show False by linarith
  qed
  with select_pipe_size_smallest_adequate [OF pos2]
  have "select_pipe_size 10 1 = Inr STATUS_ERROR" by blast
  with ok show ?thesis ..
qed

end
